theory Spec2Isabelle
  imports Main "HOL-Library.Word" "HOL-Library.Multiset"
begin

section \<open>Values shared by the services\<close>

text \<open>
  A \<open>Uint8Array\<close> is a list of bytes. JavaScript strings are lists of characters; the
  string operations the services use (\<open>endsWith\<close>, \<open>startsWith\<close>, \<open>includes\<close>,
  \<open>split\<close>) compare code units one by one, which is what the list functions below do.
\<close>

type_synonym byte = "8 word"
type_synonym bytes = "byte list"

text \<open>
  What a \<open>throw\<close> carries. The services only ever inspect two things of a caught value:
  whether it is an \<open>Error\<close> instance, and whether it is a \<open>TypeError\<close>; and its message.
  \<open>Error m\<close> stands for an instance of \<open>Error\<close> that is not a \<open>TypeError\<close>,
  \<open>NonError\<close> for a thrown value that is no \<open>Error\<close> instance at all.
\<close>

datatype thrown = Error string | TypeError string | NonError

definition endsWith :: "string \<Rightarrow> string \<Rightarrow> bool" where
  "endsWith s suf =
     (length suf \<le> length s \<and> drop (length s - length suf) s = suf)"

definition startsWith :: "string \<Rightarrow> string \<Rightarrow> bool" where
  "startsWith s pre = (take (length pre) s = pre)"

fun str_includes :: "string \<Rightarrow> string \<Rightarrow> bool" where
  "str_includes [] pat = (pat = [])"
| "str_includes (c # s) pat = (startsWith (c # s) pat \<or> str_includes s pat)"

text \<open>\<open>s.split(sep)\<close> for a one-character separator: the pieces between the separators.\<close>

fun split_on :: "char \<Rightarrow> string \<Rightarrow> string list" where
  "split_on sep [] = [[]]"
| "split_on sep (c # s) =
     (if c = sep then [] # split_on sep s
      else (case split_on sep s of
              [] \<Rightarrow> [[c]]
            | p # ps \<Rightarrow> (c # p) # ps))"

text \<open>\<open>xs[i]\<close> on a JavaScript array: \<open>undefined\<close> (here \<open>None\<close>) out of range.\<close>

definition js_index :: "'a list \<Rightarrow> nat \<Rightarrow> 'a option" where
  "js_index xs i = (if i < length xs then Some (xs ! i) else None)"

text \<open>Decimal rendering of a natural number, as a template literal renders a status code.\<close>

definition digit_char :: "nat \<Rightarrow> char" where
  "digit_char d = char_of (48 + d)"

function string_of_nat :: "nat \<Rightarrow> string" where
  "string_of_nat n =
     (if n < 10 then [digit_char n]
      else string_of_nat (n div 10) @ [digit_char (n mod 10)])"
  by pat_completeness auto
termination
  by (relation "measure id") auto

declare string_of_nat.simps [simp del]

section \<open>Artifact presenter: \<open>PDFService.downloadPDF\<close>\<close>

text \<open>
  The host environment of \<open>downloadPDF\<close>: creating the blob and its object URL either
  throws or yields the URL. The effects of a call are recorded as a list of events; the
  last two happen in the deferred clean-up callback.
\<close>

datatype dom_event =
    CreateObjectURL bytes string
  | AppendLink string string
  | ClickLink string string
  | RemoveLink string string
  | RevokeObjectURL string

record host =
  createObjectURL :: "bytes \<Rightarrow> thrown + string"

text \<open>The first statement of \<open>downloadPDF\<close>: \<open>if (!filename.endsWith('.pdf')) filename += '.pdf'\<close>.\<close>

definition pdf_filename :: "string \<Rightarrow> string" where
  "pdf_filename filename =
     (if \<not> endsWith filename ''.pdf'' then filename @ ''.pdf'' else filename)"

definition downloadPDF :: "host \<Rightarrow> bytes \<Rightarrow> string \<Rightarrow> dom_event list \<times> (thrown + unit)" where
  "downloadPDF h pdfBytes filename0 =
     (let filename = pdf_filename filename0 in
      case createObjectURL h pdfBytes of
        Inl e \<Rightarrow> ([], Inl (Error ''Failed to download PDF. Please try again.''))
      | Inr url \<Rightarrow>
          ([CreateObjectURL pdfBytes url, AppendLink url filename, ClickLink url filename,
            RemoveLink url filename, RevokeObjectURL url],
           Inr ()))"

text \<open>The names under which a call triggered a save: the \<open>download\<close> attribute of each clicked link.\<close>

fun saved_names :: "dom_event list \<Rightarrow> string list" where
  "saved_names [] = []"
| "saved_names (ClickLink url name # es) = name # saved_names es"
| "saved_names (e # es) = saved_names es"

section \<open>Document encoder: \<open>DocumentService.exportDocumentAsBase64\<close>\<close>

subsection \<open>Base64 and data URLs\<close>

text \<open>
  \<open>FileReader.readAsDataURL\<close> is the platform's encoder, not code of the services. It is
  modelled after RFC 4648 (standard alphabet, \<open>=\<close> padding, no line breaks) and RFC 2397:
  the result is \<open>data:<media type>;base64,<base64 of the bytes>\<close>. (A browser writes
  \<open>application/octet-stream\<close> for an empty media type; what follows the comma is the same.)
\<close>

definition b64_alphabet :: string where
  "b64_alphabet = ''ABCDEFGHIJKLMNOPQRSTUVWXYZabcdefghijklmnopqrstuvwxyz0123456789+/''"

definition b64_char :: "nat \<Rightarrow> char" where
  "b64_char i = b64_alphabet ! (i mod 64)"

fun base64_encode :: "bytes \<Rightarrow> string" where
  "base64_encode [] = []"
| "base64_encode [a] =
     (let n = unat a * 65536
      in [b64_char (n div 262144), b64_char (n div 4096 mod 64), CHR ''='', CHR ''=''])"
| "base64_encode [a, b] =
     (let n = unat a * 65536 + unat b * 256
      in [b64_char (n div 262144), b64_char (n div 4096 mod 64), b64_char (n div 64 mod 64),
          CHR ''=''])"
| "base64_encode (a # b # c # rest) =
     (let n = unat a * 65536 + unat b * 256 + unat c
      in [b64_char (n div 262144), b64_char (n div 4096 mod 64), b64_char (n div 64 mod 64),
          b64_char (n mod 64)] @ base64_encode rest)"

record blob =
  blob_type :: string
  blob_bytes :: bytes

definition data_url :: "blob \<Rightarrow> string" where
  "data_url b = ''data:'' @ blob_type b @ '';base64,'' @ base64_encode (blob_bytes b)"

text \<open>
  The decoder of standard base64, the inverse the round trip is stated against: groups of
  four characters of the alphabet, the last group padded with one or two \<open>=\<close>.
\<close>

fun index_of :: "'a \<Rightarrow> 'a list \<Rightarrow> nat option" where
  "index_of x [] = None"
| "index_of x (y # ys) = (if x = y then Some 0 else map_option Suc (index_of x ys))"

definition b64_index :: "char \<Rightarrow> nat option" where
  "b64_index c = index_of c b64_alphabet"

fun base64_decode :: "string \<Rightarrow> bytes option" where
  "base64_decode [] = Some []"
| "base64_decode (c1 # c2 # c3 # c4 # rest) =
     (case (b64_index c1, b64_index c2) of
        (Some i1, Some i2) \<Rightarrow>
          (if rest = [] \<and> c3 = CHR ''='' \<and> c4 = CHR ''='' then
             Some [of_nat ((i1 * 262144 + i2 * 4096) div 65536)]
           else if rest = [] \<and> c4 = CHR ''='' then
             (case b64_index c3 of
                Some i3 \<Rightarrow>
                  (let n = i1 * 262144 + i2 * 4096 + i3 * 64
                   in Some [of_nat (n div 65536), of_nat (n div 256 mod 256)])
              | None \<Rightarrow> None)
           else
             (case (b64_index c3, b64_index c4, base64_decode rest) of
                (Some i3, Some i4, Some bs) \<Rightarrow>
                  (let n = i1 * 262144 + i2 * 4096 + i3 * 64 + i4
                   in Some (of_nat (n div 65536) # of_nat (n div 256 mod 256)
                              # of_nat (n mod 256) # bs))
              | _ \<Rightarrow> None))
      | _ \<Rightarrow> None)"
| "base64_decode cs = None"

subsection \<open>The document store\<close>

text \<open>A row of the \<open>documents\<close> table, and the \<open>Document\<close> that \<open>mapDatabaseToDocument\<close> makes of it.\<close>

record row =
  row_id :: string
  row_name :: string
  row_description :: "string option"
  row_filename :: string
  row_file_url :: "string option"
  row_size :: "nat option"
  row_type :: string
  row_required :: "bool option"
  row_product_type :: string

record document =
  doc_id :: string
  doc_name :: string
  doc_description :: string
  doc_filename :: string
  doc_url :: "string option"
  doc_size :: nat
  doc_type :: string
  doc_required :: bool
  doc_products :: "string list"
  doc_productType :: string

definition mapDatabaseToDocument :: "row \<Rightarrow> document" where
  "mapDatabaseToDocument dbDoc =
     \<lparr> doc_id = row_id dbDoc,
       doc_name = row_name dbDoc,
       doc_description = (case row_description dbDoc of None \<Rightarrow> [] | Some d \<Rightarrow> d),
       doc_filename = row_filename dbDoc,
       doc_url = row_file_url dbDoc,
       doc_size = (case row_size dbDoc of None \<Rightarrow> 0 | Some n \<Rightarrow> n),
       doc_type = row_type dbDoc,
       doc_required = (case row_required dbDoc of None \<Rightarrow> False | Some b \<Rightarrow> b),
       doc_products = [],
       doc_productType = row_product_type dbDoc \<rparr>"

text \<open>
  A reply of the database client, destructured by the services as \<open>{ data, error }\<close>:
  \<open>error\<close> is the error object (thrown as it is when present), \<open>data\<close> may be null.
\<close>

record 'a reply =
  data :: "'a option"
  error :: "thrown option"

text \<open>
  The collaborators of \<open>DocumentService\<close>: the two queries on the \<open>documents\<close> table,
  \<open>fetch(url)\<close> of a document's content followed by \<open>response.blob()\<close> (either may throw),
  and whether the \<open>FileReader\<close> reports an error on a blob.
\<close>

record store =
  select_by_id :: "string \<Rightarrow> row reply"
  select_by_product_type :: "string option \<Rightarrow> row list reply"
  fetch :: "string \<Rightarrow> thrown + (thrown + blob)"
  reader_error :: "blob \<Rightarrow> bool"

datatype store_event =
    SelectById string
  | SelectByProductType "string option"
  | Fetch string

definition getDocument :: "store \<Rightarrow> string \<Rightarrow> store_event list \<times> (thrown + document option)" where
  "getDocument st i =
     (let r = select_by_id st i in
      case error r of
        Some e \<Rightarrow> ([SelectById i], Inl e)
      | None \<Rightarrow> ([SelectById i], Inr (map_option mapDatabaseToDocument (data r))))"

definition getDocumentsByProductType ::
  "store \<Rightarrow> string option \<Rightarrow> store_event list \<times> (thrown + document list)" where
  "getDocumentsByProductType st productType =
     (let r = select_by_product_type st productType in
      case error r of
        Some e \<Rightarrow> ([SelectByProductType productType], Inl e)
      | None \<Rightarrow>
          ([SelectByProductType productType],
           Inr (map mapDatabaseToDocument (case data r of None \<Rightarrow> [] | Some rows \<Rightarrow> rows))))"

text \<open>
  What \<open>exportDocumentAsBase64\<close> resolves to: \<open>null\<close>, a string, or \<open>undefined\<close> (the
  second piece of a split that has only one).
\<close>

datatype js_string = Null | Undefined | Str string

text \<open>
  \<open>exportDocumentAsBase64\<close>. The record lookup is outside the \<open>try\<close>: its error propagates.
  \<open>fetch\<close> and \<open>response.blob()\<close> are inside: their errors are caught and the result is
  \<open>null\<close>. The promise around the \<open>FileReader\<close> is returned without \<open>await\<close>, so its
  rejection (the reader's error event, not an \<open>Error\<close> instance) is not caught by the
  \<open>catch\<close> and propagates to the caller.
\<close>

definition exportDocumentAsBase64 ::
  "store \<Rightarrow> string \<Rightarrow> store_event list \<times> (thrown + js_string)" where
  "exportDocumentAsBase64 st i =
     (case getDocument st i of
        (evs, Inl e) \<Rightarrow> (evs, Inl e)
      | (evs, Inr None) \<Rightarrow> (evs, Inr Null)
      | (evs, Inr (Some doc)) \<Rightarrow>
          (case doc_url doc of
             None \<Rightarrow> (evs, Inr Null)
           | Some url \<Rightarrow>
               (if url = [] then (evs, Inr Null)
                else
                  (case fetch st url of
                     Inl e \<Rightarrow> (evs @ [Fetch url], Inr Null)
                   | Inr (Inl e) \<Rightarrow> (evs @ [Fetch url], Inr Null)
                   | Inr (Inr b) \<Rightarrow>
                       (if reader_error st b then (evs @ [Fetch url], Inl NonError)
                        else
                          (evs @ [Fetch url],
                           Inr (case js_index (split_on CHR '','' (data_url b)) 1 of
                                  None \<Rightarrow> Undefined
                                | Some base64Data \<Rightarrow> Str base64Data)))))))"

section \<open>Packet assembler: \<open>PDFService.generatePacket\<close>\<close>

subsection \<open>Selections and requests\<close>

record selected_document =
  sel_id :: string
  document :: document
  selected :: bool
  order :: int

record status_flags =
  forReview :: bool
  forApproval :: bool
  forRecord :: bool
  forInformationOnly :: bool

record submittal_flags =
  tds :: bool
  threePartSpecs :: bool
  testReportIccEsr5194 :: bool
  testReportIccEsl1645 :: bool
  fireAssembly :: bool
  fireAssembly01 :: bool
  fireAssembly02 :: bool
  fireAssembly03 :: bool
  msds :: bool
  leedGuide :: bool
  installationGuide :: bool
  warranty :: bool
  samples :: bool
  other :: bool

text \<open>
  \<open>Partial<ProjectFormData>\<close>: the three fields \<open>generatePacket\<close> reads, each possibly
  absent, and the remaining caller fields, which it only copies.
\<close>

record 'a form_data =
  productType :: "string option"
  status :: "status_flags option"
  submittalType :: "submittal_flags option"
  callerFields :: 'a

record 'a project_data =
  pd_productType :: "string option"
  pd_status :: status_flags
  pd_submittalType :: submittal_flags
  pd_callerFields :: 'a

record packet_document =
  pk_id :: string
  pk_name :: string
  pk_url :: string
  pk_type :: string
  fileData :: "string option"

record 'a payload =
  projectData :: "'a project_data"
  documents :: "packet_document list"
  selectedDocumentNames :: "string list"
  allAvailableDocuments :: "string list"

subsection \<open>The worker's response\<close>

text \<open>
  A parsed JSON value. Numbers are integers here; fractional numbers are outside the model.
\<close>

datatype json =
    JNull
  | JBool bool
  | JNum int
  | JStr string
  | JArr "json list"
  | JObj "(string \<times> json) list"

text \<open>
  The \<open>Response\<close> of the worker, as the record of what each of its members yields when
  \<open>generatePacket\<close> reads it: \<open>res_json\<close> is the outcome of \<open>response.json()\<close>,
  \<open>res_text\<close> the outcome of the \<open>response.text()\<close> that the \<open>catch\<close> block calls after
  \<open>response.json()\<close> has failed, \<open>res_arrayBuffer\<close> the outcome of
  \<open>response.arrayBuffer()\<close>. \<open>response.ok\<close> is the Fetch standard's: a status from 200 to 299.
\<close>

record response =
  res_status :: nat
  res_statusText :: string
  res_json :: "thrown + json"
  res_text :: "thrown + string"
  res_arrayBuffer :: "thrown + bytes"

definition ok :: "response \<Rightarrow> bool" where
  "ok r = (200 \<le> res_status r \<and> res_status r \<le> 299)"

text \<open>
  The collaborators of \<open>PDFService\<close>: the configured worker URL, the POST to the worker
  (\<open>fetch\<close> throws a \<open>TypeError\<close> when the host cannot be reached), the moment at which
  the retrieval of the \<open>i\<close>-th selected document settles, and the platform's conversions
  of a JSON value to a string (\<open>String(v)\<close> and \<open>JSON.stringify(v)\<close>).
\<close>

record 'a worker =
  workerUrl :: string
  post :: "string \<Rightarrow> 'a payload \<Rightarrow> thrown + response"
  settles_at :: "nat \<Rightarrow> nat"
  js_String :: "json \<Rightarrow> string"
  JSON_stringify :: "json \<Rightarrow> string"

datatype 'a event =
    Store store_event
  | Post string "'a payload"

subsection \<open>Filtering and ordering (lines 31 to 37)\<close>

text \<open>
  \<open>Array.prototype.sort\<close> with a comparator: a stable sort (ECMAScript 2019), here by
  insertion. An element goes before the first one the comparator puts strictly after it,
  hence after every element it compares equal to.
\<close>

fun insert_by :: "('a \<Rightarrow> 'a \<Rightarrow> int) \<Rightarrow> 'a \<Rightarrow> 'a list \<Rightarrow> 'a list" where
  "insert_by cmp x [] = [x]"
| "insert_by cmp x (y # ys) =
     (if cmp x y < 0 then x # y # ys else y # insert_by cmp x ys)"

definition js_sort :: "('a \<Rightarrow> 'a \<Rightarrow> int) \<Rightarrow> 'a list \<Rightarrow> 'a list" where
  "js_sort cmp xs = foldl (\<lambda>acc x. insert_by cmp x acc) [] xs"

definition sortedDocs :: "selected_document list \<Rightarrow> selected_document list" where
  "sortedDocs selectedDocuments =
     js_sort (\<lambda>a b. order a - order b) (filter selected selectedDocuments)"

subsection \<open>Retrieving the documents (lines 40 to 56)\<close>

text \<open>The callback of \<open>sortedDocs.map\<close>: one document's entry, or the error naming it.\<close>

definition processDocument ::
  "store \<Rightarrow> selected_document \<Rightarrow> store_event list \<times> (thrown + packet_document)" where
  "processDocument st doc =
     (case exportDocumentAsBase64 st (doc_id (document doc)) of
        (evs, Inl e) \<Rightarrow>
          (evs, Inl (Error (''Failed to process document: '' @ doc_name (document doc))))
      | (evs, Inr fd) \<Rightarrow>
          (evs,
           Inr \<lparr> pk_id = sel_id doc,
                 pk_name = doc_name (document doc),
                 pk_url = (case doc_url (document doc) of None \<Rightarrow> [] | Some u \<Rightarrow> u),
                 pk_type = doc_type (document doc),
                 fileData = (case fd of Str s \<Rightarrow> (if s = [] then None else Some s)
                                      | _ \<Rightarrow> None) \<rparr>))"

text \<open>
  \<open>Promise.all\<close> over promises given with the moment each settles: it rejects with the
  reason of the rejection that settles first (the earlier one in the list when two settle
  together), and resolves with all the values, in the list's order, when none rejects.
\<close>

fun first_rejection :: "(nat \<times> (thrown + 'b)) list \<Rightarrow> (nat \<times> thrown) option" where
  "first_rejection [] = None"
| "first_rejection ((t, Inr v) # ps) = first_rejection ps"
| "first_rejection ((t, Inl e) # ps) =
     (case first_rejection ps of
        None \<Rightarrow> Some (t, e)
      | Some (t', e') \<Rightarrow> (if t' < t then Some (t', e') else Some (t, e)))"

fun fulfilled :: "(nat \<times> (thrown + 'b)) list \<Rightarrow> 'b list" where
  "fulfilled [] = []"
| "fulfilled ((t, Inr v) # ps) = v # fulfilled ps"
| "fulfilled ((t, Inl e) # ps) = fulfilled ps"

definition promise_all :: "(nat \<times> (thrown + 'b)) list \<Rightarrow> thrown + 'b list" where
  "promise_all ps =
     (case first_rejection ps of
        Some (t, e) \<Rightarrow> Inl e
      | None \<Rightarrow> Inr (fulfilled ps))"

subsection \<open>The request (lines 63 to 92)\<close>

definition default_status :: status_flags where
  "default_status =
     \<lparr> forReview = False, forApproval = False, forRecord = False,
       forInformationOnly = False \<rparr>"

definition default_submittalType :: submittal_flags where
  "default_submittalType =
     \<lparr> tds = False, threePartSpecs = False, testReportIccEsr5194 = False,
       testReportIccEsl1645 = False, fireAssembly = False, fireAssembly01 = False,
       fireAssembly02 = False, fireAssembly03 = False, msds = False, leedGuide = False,
       installationGuide = False, warranty = False, samples = False, other = False \<rparr>"

definition build_payload ::
  "'a form_data \<Rightarrow> packet_document list \<Rightarrow> string list \<Rightarrow> document list \<Rightarrow> 'a payload" where
  "build_payload formData documentsWithData names allCategoryDocs =
     \<lparr> projectData =
         \<lparr> pd_productType = productType formData,
           pd_status = (case status formData of Some s \<Rightarrow> s | None \<Rightarrow> default_status),
           pd_submittalType =
             (case submittalType formData of Some s \<Rightarrow> s | None \<Rightarrow> default_submittalType),
           pd_callerFields = callerFields formData \<rparr>,
       documents = documentsWithData,
       selectedDocumentNames = names,
       allAvailableDocuments = map doc_name allCategoryDocs \<rparr>"

subsection \<open>Reading the response (lines 113 to 131)\<close>

fun message_of :: "json \<Rightarrow> json option" where
  "message_of (JObj kvs) = map_of (rev kvs) ''message''"
| "message_of v = None"

fun truthy :: "json \<Rightarrow> bool" where
  "truthy JNull = False"
| "truthy (JBool b) = b"
| "truthy (JNum n) = (n \<noteq> 0)"
| "truthy (JStr s) = (s \<noteq> [])"
| "truthy (JArr vs) = True"
| "truthy (JObj kvs) = True"

text \<open>A value inside a template literal: a string is itself, another value is \<open>String(v)\<close>.\<close>

definition template :: "'a worker \<Rightarrow> json \<Rightarrow> string" where
  "template w v = (case v of JStr s \<Rightarrow> s | _ \<Rightarrow> js_String w v)"

text \<open>
  The \<open>try\<close> block of the error branch: \<open>None\<close> when it throws, which it does when
  \<open>response.json()\<close> rejects and when the parsed body is \<open>null\<close> (reading \<open>.message\<close>
  of \<open>null\<close> is a \<open>TypeError\<close>).
\<close>

definition json_detail :: "'a worker \<Rightarrow> response \<Rightarrow> string option" where
  "json_detail w r =
     (case res_json r of
        Inl e \<Rightarrow> None
      | Inr errorData \<Rightarrow>
          (if errorData = JNull then None
           else Some (case message_of errorData of
                        None \<Rightarrow> JSON_stringify w errorData
                      | Some m \<Rightarrow>
                          (if truthy m then template w m else JSON_stringify w errorData))))"

definition read_response :: "'a worker \<Rightarrow> response \<Rightarrow> thrown + bytes" where
  "read_response w r =
     (if \<not> ok r then
        (let errorMessage =
               ''Worker request failed: '' @ string_of_nat (res_status r) @ '' ''
                 @ res_statusText r
         in case json_detail w r of
              Some d \<Rightarrow> Inl (Error (errorMessage @ '' - '' @ d))
            | None \<Rightarrow>
                (case res_text r of
                   Inl e \<Rightarrow> Inl e
                 | Inr t \<Rightarrow> Inl (Error (errorMessage @ '' - '' @ t))))
      else
        (case res_arrayBuffer r of
           Inl e \<Rightarrow> Inl e
         | Inr pdfBuffer \<Rightarrow>
             (if length pdfBuffer = 0 then Inl (Error ''Received empty PDF from worker'')
              else Inr pdfBuffer)))"

subsection \<open>The whole operation\<close>

text \<open>The outer \<open>catch\<close> (lines 133 to 142).\<close>

definition catch_outer :: "'a worker \<Rightarrow> thrown \<Rightarrow> thrown" where
  "catch_outer w e =
     (case e of
        TypeError m \<Rightarrow>
          (if str_includes m ''fetch'' then
             Error (''Cannot connect to PDF Worker at '' @ workerUrl w @ ''. ''
                    @ ''Please check your internet connection and make sure the worker is running.'')
           else TypeError m)
      | Error m \<Rightarrow> Error m
      | NonError \<Rightarrow> Error ''Failed to generate PDF packet'')"

text \<open>
  The body of the \<open>try\<close>. All retrievals are started before any is awaited, so the events
  of all of them are effects of the call, whichever of them fails.
\<close>

definition generatePacket_try ::
  "store \<Rightarrow> 'a worker \<Rightarrow> 'a form_data \<Rightarrow> selected_document list
     \<Rightarrow> 'a event list \<times> (thrown + bytes)" where
  "generatePacket_try st w formData selectedDocuments =
     (let docs = sortedDocs selectedDocuments in
      if length docs = 0 then ([], Inl (Error ''No documents selected for packet generation''))
      else
        (let results = map (processDocument st) docs;
             evs1 = map Store (concat (map fst results))
         in case promise_all (zip (map (settles_at w) [0..<length results]) (map snd results)) of
              Inl e \<Rightarrow> (evs1, Inl e)
            | Inr documentsWithData \<Rightarrow>
                (let names = map (\<lambda>doc. doc_name (document doc)) docs in
                 case getDocumentsByProductType st (productType formData) of
                   (evs2, Inl e) \<Rightarrow> (evs1 @ map Store evs2, Inl e)
                 | (evs2, Inr allCategoryDocs) \<Rightarrow>
                     (let p = build_payload formData documentsWithData names allCategoryDocs;
                          url = workerUrl w @ ''/generate-packet'';
                          evs3 = evs1 @ map Store evs2 @ [Post url p]
                      in case post w url p of
                           Inl e \<Rightarrow> (evs3, Inl e)
                         | Inr r \<Rightarrow> (evs3, read_response w r)))))"

definition generatePacket ::
  "store \<Rightarrow> 'a worker \<Rightarrow> 'a form_data \<Rightarrow> selected_document list
     \<Rightarrow> 'a event list \<times> (thrown + bytes)" where
  "generatePacket st w formData selectedDocuments =
     (case generatePacket_try st w formData selectedDocuments of
        (evs, Inl e) \<Rightarrow> (evs, Inl (catch_outer w e))
      | (evs, Inr pdf) \<Rightarrow> (evs, Inr pdf))"

text \<open>The requests a call sent to the worker.\<close>

fun posted :: "'a event list \<Rightarrow> 'a payload list" where
  "posted [] = []"
| "posted (Post url p # es) = p # posted es"
| "posted (Store e # es) = posted es"

section \<open>Uploading: \<open>DocumentService.validatePDF\<close> and \<open>uploadDocument\<close>\<close>

text \<open>
  A \<open>File\<close> as \<open>validatePDF\<close> reads it: its name, media type and size, and the outcome of
  \<open>file.slice(0, 5).arrayBuffer()\<close>.
\<close>

record js_file =
  file_name :: string
  file_type :: string
  file_size :: nat
  file_head :: "thrown + bytes"

record validation =
  valid :: bool
  error_message :: "string option"

definition MAX_SIZE :: nat where
  "MAX_SIZE = 50 * 1024 * 1024"

text \<open>\<open>String.fromCharCode(...bytes)\<close>: one character per byte, with the byte as its code.\<close>

definition fromCharCode :: "bytes \<Rightarrow> string" where
  "fromCharCode bs = map (\<lambda>b. char_of (unat b)) bs"

definition validatePDF :: "js_file \<Rightarrow> validation" where
  "validatePDF f =
     (if file_type f \<noteq> ''application/pdf'' then
        \<lparr> valid = False, error_message = Some ''File must be a PDF document'' \<rparr>
      else if file_size f > MAX_SIZE then
        \<lparr> valid = False, error_message = Some ''File size exceeds 50MB limit'' \<rparr>
      else if file_size f < 1024 then
        \<lparr> valid = False, error_message = Some ''File is too small to be a valid PDF'' \<rparr>
      else
        (case file_head f of
           Inl e \<Rightarrow> \<lparr> valid = False, error_message = Some ''Failed to read file'' \<rparr>
         | Inr bs \<Rightarrow>
             (let signature = fromCharCode bs in
              if \<not> startsWith signature ''%PDF'' then
                \<lparr> valid = False,
                  error_message = Some ''File does not appear to be a valid PDF'' \<rparr>
              else \<lparr> valid = True, error_message = None \<rparr>)))"

datatype DocumentType = TDS | ESR | MSDS | LEED | Installation | Warranty | Acoustic | PartSpec

fun type_name :: "DocumentType \<Rightarrow> string" where
  "type_name TDS = ''TDS''"
| "type_name ESR = ''ESR''"
| "type_name MSDS = ''MSDS''"
| "type_name LEED = ''LEED''"
| "type_name Installation = ''Installation''"
| "type_name Warranty = ''warranty''"
| "type_name Acoustic = ''Acoustic''"
| "type_name PartSpec = ''PartSpec''"

fun typeMap :: "DocumentType \<Rightarrow> string" where
  "typeMap TDS = ''Technical Data Sheet''"
| "typeMap ESR = ''Evaluation Report''"
| "typeMap MSDS = ''Material Safety Data Sheet''"
| "typeMap LEED = ''LEED Credit Guide''"
| "typeMap Installation = ''Installation Guide''"
| "typeMap Warranty = ''Limited Warranty''"
| "typeMap Acoustic = ''Acoustical Performance''"
| "typeMap PartSpec = ''3-Part Specifications''"

text \<open>
  A reply of the storage, auth and insert calls: the error's message, or the data. The row
  the insert is given:
\<close>

datatype 'a outcome = Failed string | Done 'a

record insert_row =
  ins_name :: string
  ins_description :: string
  ins_filename :: string
  ins_file_url :: string
  ins_size :: nat
  ins_type :: string
  ins_product_type :: string
  ins_required :: bool

text \<open>
  The collaborators of \<open>uploadDocument\<close>: the signed-in user (if any), the storage bucket,
  the insert into \<open>documents\<close>, the text \<open>Date.now()\<close> and \<open>Math.random()\<close> contribute to
  the object's name, and the platform's \<open>toLowerCase\<close>.
\<close>

record uploader =
  getUser :: "bool outcome"
  upload :: "string \<Rightarrow> js_file \<Rightarrow> string outcome"
  getPublicUrl :: "string \<Rightarrow> string"
  insert_document :: "insert_row \<Rightarrow> row outcome"
  stamp :: string
  toLowerCase :: "string \<Rightarrow> string"

datatype upload_event =
    GetUser
  | Progress nat
  | StorageUpload string
  | Insert insert_row
  | StorageRemove string

definition detectDocumentType :: "uploader \<Rightarrow> string \<Rightarrow> DocumentType" where
  "detectDocumentType u filename =
     (let lower = toLowerCase u filename in
      if str_includes lower ''tds'' \<or> str_includes lower ''technical data'' then TDS
      else if str_includes lower ''esr'' \<or> str_includes lower ''evaluation report'' then ESR
      else if str_includes lower ''msds'' \<or> str_includes lower ''safety data'' then MSDS
      else if str_includes lower ''leed'' then LEED
      else if str_includes lower ''installation'' \<or> str_includes lower ''install''
        then Installation
      else if str_includes lower ''warranty'' then Warranty
      else if str_includes lower ''acoustic'' \<or> str_includes lower ''esl'' then Acoustic
      else if str_includes lower ''spec'' \<or> str_includes lower ''3-part'' then PartSpec
      else TDS)"

definition extractDocumentName :: "uploader \<Rightarrow> string \<Rightarrow> DocumentType \<Rightarrow> string" where
  "extractDocumentName u filename t =
     (let name = (if endsWith (toLowerCase u filename) ''.pdf''
                  then take (length filename - 4) filename else filename)
      in if typeMap t = [] then name else typeMap t)"

definition progress :: "bool \<Rightarrow> nat \<Rightarrow> upload_event list" where
  "progress onProgress n = (if onProgress then [Progress n] else [])"

text \<open>
  \<open>uploadDocument\<close>; \<open>onProgress\<close> says whether a progress callback was passed. Every
  error of the \<open>try\<close> block is an \<open>Error\<close> made there, which the final \<open>catch\<close> rethrows.
\<close>

definition uploadDocument ::
  "uploader \<Rightarrow> js_file \<Rightarrow> string \<Rightarrow> bool \<Rightarrow> upload_event list \<times> (thrown + document)" where
  "uploadDocument u f ptype onProgress =
     (let validation = validatePDF f in
      if \<not> valid validation then
        ([], Inl (Error (case error_message validation of
                           None \<Rightarrow> ''Invalid PDF file''
                         | Some m \<Rightarrow> (if m = [] then ''Invalid PDF file'' else m))))
      else
        (case getUser u of
           Failed m \<Rightarrow> ([GetUser], Inl (Error ''You must be logged in to upload documents''))
         | Done False \<Rightarrow> ([GetUser], Inl (Error ''You must be logged in to upload documents''))
         | Done True \<Rightarrow>
             (let fileExt = last (split_on CHR ''.'' (file_name f));
                  fileName = ptype @ ''/'' @ stamp u @ ''.'' @ fileExt;
                  evs1 = [GetUser] @ progress onProgress 25 @ [StorageUpload fileName]
              in case upload u fileName f of
                   Failed m \<Rightarrow> (evs1, Inl (Error (''Failed to upload file: '' @ m)))
                 | Done path \<Rightarrow>
                     (let publicUrl = getPublicUrl u path;
                          t = detectDocumentType u (file_name f);
                          name = extractDocumentName u (file_name f) t;
                          r = \<lparr> ins_name = name,
                                ins_description = type_name t @ '' Document'',
                                ins_filename = file_name f,
                                ins_file_url = publicUrl,
                                ins_size = file_size f,
                                ins_type = ptype,
                                ins_product_type = ptype,
                                ins_required = False \<rparr>;
                          evs2 = evs1 @ progress onProgress 50 @ [Insert r]
                      in case insert_document u r of
                           Failed m \<Rightarrow>
                             (evs2 @ [StorageRemove path],
                              Inl (Error (''Failed to save document metadata: '' @ m)))
                         | Done docData \<Rightarrow>
                             (evs2 @ progress onProgress 100,
                              Inr (mapDatabaseToDocument docData))))))"

text \<open>The storage uploads and database inserts among the events of a call.\<close>

fun writes :: "upload_event list \<Rightarrow> upload_event list" where
  "writes [] = []"
| "writes (StorageUpload p # es) = StorageUpload p # writes es"
| "writes (Insert r # es) = Insert r # writes es"
| "writes (e # es) = writes es"

section \<open>Concrete inputs\<close>

definition host_ok :: host where
  "host_ok = \<lparr> createObjectURL = (\<lambda>b. Inr ''blob:1'') \<rparr>"

definition row_of :: "string \<Rightarrow> string \<Rightarrow> string option \<Rightarrow> row" where
  "row_of i n u =
     \<lparr> row_id = i, row_name = n, row_description = None, row_filename = n @ ''.pdf'',
       row_file_url = u, row_size = Some 2048, row_type = ''TDS'', row_required = None,
       row_product_type = ''structural-floor'' \<rparr>"

definition pdf_blob :: blob where
  "pdf_blob = \<lparr> blob_type = ''application/pdf'', blob_bytes = [37, 80, 68, 70] \<rparr>"

definition store_ok :: store where
  "store_ok =
     \<lparr> select_by_id = (\<lambda>i. \<lparr> data = Some (row_of i (''Doc '' @ i) (Some (''https://files/'' @ i))),
                                error = None \<rparr>),
       select_by_product_type = (\<lambda>t. \<lparr> data = Some [row_of ''a'' ''Doc a'' None], error = None \<rparr>),
       fetch = (\<lambda>u. Inr (Inr pdf_blob)),
       reader_error = (\<lambda>b. False) \<rparr>"

definition sel_of :: "string \<Rightarrow> bool \<Rightarrow> int \<Rightarrow> selected_document" where
  "sel_of i s n =
     \<lparr> sel_id = ''sel-'' @ i,
       document = mapDatabaseToDocument (row_of i (''Doc '' @ i) (Some (''https://files/'' @ i))),
       selected = s, order = n \<rparr>"

definition pdf_response :: response where
  "pdf_response =
     \<lparr> res_status = 200, res_statusText = ''OK'', res_json = Inl (Error ''Unexpected token % in JSON at position 0''),
       res_text = Inr ''%PDF-'',
       res_arrayBuffer = Inr [37, 80, 68, 70, 45] \<rparr>"

definition worker_answering :: "response \<Rightarrow> unit worker" where
  "worker_answering r =
     \<lparr> workerUrl = ''https://worker'', post = (\<lambda>url p. Inr r), settles_at = (\<lambda>i. i),
       js_String = (\<lambda>v. ''[object Object]''), JSON_stringify = (\<lambda>v. ''{}'') \<rparr>"

definition form_plain :: "unit form_data" where
  "form_plain = \<lparr> productType = Some ''structural-floor'', status = None,
                   submittalType = None, callerFields = () \<rparr>"

definition store_lookup_fails :: store where
  "store_lookup_fails =
     store_ok \<lparr> select_by_id := (\<lambda>i. if i = ''b''
         then \<lparr> data = None, error = Some (Error ''connection lost'') \<rparr>
         else select_by_id store_ok i) \<rparr>"

definition sel3 :: "selected_document list" where
  "sel3 = [sel_of ''a'' True 2, sel_of ''x'' False 0, sel_of ''b'' True 1, sel_of ''c'' True 3]"

definition entry_of :: "string \<Rightarrow> packet_document" where
  "entry_of i =
     \<lparr> pk_id = ''sel-'' @ i, pk_name = ''Doc '' @ i, pk_url = ''https://files/'' @ i,
       pk_type = ''TDS'', fileData = Some ''JVBERg=='' \<rparr>"

definition sel_ties :: "selected_document list" where
  "sel_ties = [sel_of ''a'' True 1, sel_of ''b'' False 0, sel_of ''c'' True 1]"

definition catalog_ok :: "document list" where
  "catalog_ok = [mapDatabaseToDocument (row_of ''a'' ''Doc a'' None)]"

definition empty_response :: response where
  "empty_response = pdf_response \<lparr> res_arrayBuffer := Inr [] \<rparr>"

definition boom_response :: response where
  "boom_response =
     \<lparr> res_status = 500, res_statusText = ''Internal Server Error'',
       res_json = Inr (JObj [(''message'', JStr ''boom'')]),
       res_text = Inl (TypeError ''body stream already read''),
       res_arrayBuffer = Inl (TypeError ''body stream already read'') \<rparr>"

definition bad_gateway_response :: response where
  "bad_gateway_response =
     \<lparr> res_status = 502, res_statusText = ''Bad Gateway'',
       res_json = Inl (Error ''Unexpected token B in JSON at position 0''),
       res_text = Inl (TypeError ''body stream already read''),
       res_arrayBuffer = Inl (TypeError ''body stream already read'') \<rparr>"

definition flags_tds :: submittal_flags where
  "flags_tds = default_submittalType \<lparr> tds := True \<rparr>"

definition form_partial :: "unit form_data" where
  "form_partial = form_plain \<lparr> submittalType := Some flags_tds \<rparr>"

definition payload3 :: "unit form_data \<Rightarrow> unit payload" where
  "payload3 formData =
     build_payload formData [entry_of ''b'', entry_of ''a'', entry_of ''c'']
       [''Doc b'', ''Doc a'', ''Doc c''] catalog_ok"

definition store_fetch_fails :: store where
  "store_fetch_fails = store_ok \<lparr> fetch := (\<lambda>u. Inl (TypeError ''Failed to fetch'')) \<rparr>"

definition uploader_ok :: uploader where
  "uploader_ok =
     \<lparr> getUser = Done True,
       upload = (\<lambda>n f. Done n),
       getPublicUrl = (\<lambda>p. ''https://files/'' @ p),
       insert_document = (\<lambda>r. Done (row_of ''n1'' (ins_name r) (Some (ins_file_url r)))),
       stamp = ''1700000000000-k3j5x8q2p'',
       toLowerCase = (\<lambda>s. s) \<rparr>"

definition html_file :: js_file where
  "html_file =
     \<lparr> file_name = ''warranty.pdf'', file_type = ''application/pdf'', file_size = 2048,
       file_head = Inr [60, 104, 116, 109, 108] \<rparr>"

definition pdf_file :: js_file where
  "pdf_file = html_file \<lparr> file_head := Inr [37, 80, 68, 70, 45] \<rparr>"

definition store_fetch_fails_b :: store where
  "store_fetch_fails_b =
     store_ok \<lparr> fetch := (\<lambda>u. if u = ''https://files/b''
         then Inl (TypeError ''Failed to fetch'') else fetch store_ok u) \<rparr>"



section \<open>Properties\<close>

subsection \<open>Auxiliary facts\<close>

lemma first_rejection_none:
  "\<forall>p\<in>set ps. \<exists>v. snd p = Inr v \<Longrightarrow> first_rejection ps = None"
  by (induction ps rule: first_rejection.induct) auto

lemma fulfilled_all:
  "\<forall>p\<in>set ps. \<exists>v. snd p = Inr v \<Longrightarrow> map Inr (fulfilled ps) = map snd ps"
  by (induction ps rule: fulfilled.induct) auto

lemma first_rejection_mem:
  "first_rejection ps = Some (t, e) \<Longrightarrow> (t, Inl e) \<in> set ps"
  by (induction ps arbitrary: t e rule: first_rejection.induct) (auto split: option.splits if_splits)

lemma first_rejection_some:
  "\<exists>p\<in>set ps. \<exists>e. snd p = Inl e \<Longrightarrow> first_rejection ps \<noteq> None"
  by (induction ps rule: first_rejection.induct) (auto split: option.splits)

lemma promise_all_rejects:
  assumes "\<exists>p\<in>set ps. \<exists>e. snd p = Inl e"
  shows "\<exists>t e. promise_all ps = Inl e \<and> (t, Inl e) \<in> set ps"
proof -
  from first_rejection_some [OF assms] obtain t e where "first_rejection ps = Some (t, e)"
    by auto
  then show ?thesis using first_rejection_mem [of ps t e]
    by (auto simp: promise_all_def)
qed

lemma promise_all_resolves:
  assumes "\<forall>p\<in>set ps. \<exists>v. snd p = Inr v"
  shows "\<exists>vs. promise_all ps = Inr vs \<and> map Inr vs = map snd ps"
  using first_rejection_none [OF assms] fulfilled_all [OF assms]
  by (simp add: promise_all_def)

lemma js_sort_snoc: "js_sort cmp (xs @ [x]) = insert_by cmp x (js_sort cmp xs)"
  by (simp add: js_sort_def)

lemma mset_insert_by: "mset (insert_by cmp x ys) = add_mset x (mset ys)"
  by (induction ys) auto

lemma mset_js_sort: "mset (js_sort cmp xs) = mset xs"
  by (induction xs rule: rev_induct) (simp_all add: js_sort_def mset_insert_by)

lemma set_insert_by: "set (insert_by cmp x ys) = insert x (set ys)"
  by (induction ys) auto

lemma sorted_insert_by:
  fixes f :: "'a \<Rightarrow> int"
  shows "sorted (map f ys) \<Longrightarrow> sorted (map f (insert_by (\<lambda>a b. f a - f b) x ys))"
  by (induction ys) (auto simp: set_insert_by)

lemma sorted_js_sort:
  fixes f :: "'a \<Rightarrow> int"
  shows "sorted (map f (js_sort (\<lambda>a b. f a - f b) xs))"
proof (induction xs rule: rev_induct)
  case Nil
  show ?case by (simp add: js_sort_def)
next
  case (snoc x xs)
  then show ?case by (simp add: js_sort_snoc sorted_insert_by)
qed

lemma filter_insert_by:
  fixes f :: "'a \<Rightarrow> int"
  shows "sorted (map f ys) \<Longrightarrow>
    filter (\<lambda>d. f d = k) (insert_by (\<lambda>a b. f a - f b) x ys)
      = filter (\<lambda>d. f d = k) ys @ (if f x = k then [x] else [])"
proof (induction ys)
  case Nil
  show ?case by simp
next
  case (Cons y ys)
  show ?case
  proof (cases "f x < f y")
    case True
    have "f x = k \<Longrightarrow> filter (\<lambda>d. f d = k) (y # ys) = []"
      using True Cons.prems by (auto simp: filter_empty_conv)
    with True show ?thesis by auto
  next
    case False
    with Cons show ?thesis by auto
  qed
qed

lemma filter_js_sort:
  fixes f :: "'a \<Rightarrow> int"
  shows "filter (\<lambda>d. f d = k) (js_sort (\<lambda>a b. f a - f b) xs) = filter (\<lambda>d. f d = k) xs"
proof (induction xs rule: rev_induct)
  case Nil
  show ?case by (simp add: js_sort_def)
next
  case (snoc x xs)
  then show ?case
    by (simp add: js_sort_snoc filter_insert_by sorted_js_sort)
qed

lemma strict_js_sort:
  fixes f :: "'a \<Rightarrow> int"
  shows "sorted_wrt (<) (map f (js_sort (\<lambda>a b. f a - f b) xs)) \<longleftrightarrow> distinct (map f xs)"
proof -
  have "mset (map f (js_sort (\<lambda>a b. f a - f b) xs)) = mset (map f xs)"
    by (simp add: mset_js_sort)
  then have "distinct (map f (js_sort (\<lambda>a b. f a - f b) xs)) \<longleftrightarrow> distinct (map f xs)"
    by (rule mset_eq_imp_distinct_iff)
  then show ?thesis
    using sorted_js_sort [of f xs] by (simp add: strict_sorted_iff)
qed

lemma posted_Store: "posted (map Store xs) = []"
  by (induction xs) auto

lemma posted_append: "posted (xs @ ys) = posted xs @ posted ys"
  by (induction xs rule: posted.induct) auto

lemma generatePacket_try_posted:
  assumes "p \<in> set (posted (fst (generatePacket_try st w formData sel)))"
  shows "\<exists>ds cat.
      promise_all (zip (map (settles_at w) [0..<length (sortedDocs sel)])
                       (map (\<lambda>d. snd (processDocument st d)) (sortedDocs sel))) = Inr ds
    \<and> snd (getDocumentsByProductType st (productType formData)) = Inr cat
    \<and> p = build_payload formData ds (map (\<lambda>d. doc_name (document d)) (sortedDocs sel)) cat
    \<and> posted (fst (generatePacket_try st w formData sel)) = [p]
    \<and> snd (generatePacket_try st w formData sel) =
         (case post w (workerUrl w @ ''/generate-packet'') p of
            Inl e \<Rightarrow> Inl e
          | Inr r \<Rightarrow> read_response w r)"
  using assms
  by (auto simp: generatePacket_try_def Let_def posted_append posted_Store comp_def
           split: if_splits sum.splits prod.splits)

lemma export_store_ok: "exportDocumentAsBase64 store_ok i = ([SelectById i, Fetch (''https://files/'' @ i)], Inr (Str ''JVBERg==''))"
  by (simp add: exportDocumentAsBase64_def getDocument_def store_ok_def row_of_def mapDatabaseToDocument_def
      pdf_blob_def data_url_def js_index_def b64_char_def b64_alphabet_def Let_def)

lemma processDocument_throws:
  "snd (exportDocumentAsBase64 st (doc_id (document d))) = Inl e \<Longrightarrow>
   snd (processDocument st d) = Inl (Error (''Failed to process document: '' @ doc_name (document d)))"
  by (cases "exportDocumentAsBase64 st (doc_id (document d))") (simp add: processDocument_def)

lemma processDocument_resolves:
  "snd (exportDocumentAsBase64 st (doc_id (document d))) = Inr fd \<Longrightarrow>
   \<exists>v. snd (processDocument st d) = Inr v"
  by (cases "exportDocumentAsBase64 st (doc_id (document d))") (simp add: processDocument_def)

lemma processDocument_Inl:
  "snd (processDocument st d) = Inl e \<Longrightarrow>
   (\<exists>e'. snd (exportDocumentAsBase64 st (doc_id (document d))) = Inl e')
   \<and> e = Error (''Failed to process document: '' @ doc_name (document d))"
  by (cases "exportDocumentAsBase64 st (doc_id (document d))")
     (auto simp: processDocument_def split: sum.splits)

lemma set_sortedDocs: "set (sortedDocs sel) = {d \<in> set sel. selected d}"
proof -
  have "mset (sortedDocs sel) = mset (filter selected sel)"
    by (simp add: sortedDocs_def mset_js_sort)
  then have "set (sortedDocs sel) = set (filter selected sel)"
    by (rule mset_eq_setD)
  then show ?thesis by simp
qed

lemma generatePacket_try_rejected:
  assumes "\<exists>d\<in>set (sortedDocs sel). \<exists>e. snd (processDocument st d) = Inl e"
  shows "\<exists>d\<in>set (sortedDocs sel). \<exists>e. snd (processDocument st d) = Inl e
           \<and> snd (generatePacket_try st w formData sel) = Inl e"
    and "posted (fst (generatePacket_try st w formData sel)) = []"
proof -
  let ?docs = "sortedDocs sel"
  let ?rs = "map snd (map (processDocument st) ?docs)"
  let ?ps = "zip (map (settles_at w) [0..<length (map (processDocument st) ?docs)]) ?rs"
  have snd_ps: "map snd ?ps = ?rs"
    by (simp add: map_snd_zip)
  from assms have ne: "length ?docs \<noteq> 0" by auto
  have img: "snd ` set ?ps = set ?rs"
    using snd_ps by (metis set_map)
  from assms have "\<exists>r\<in>set ?rs. \<exists>e. r = Inl e" by auto
  then have "\<exists>r\<in>snd ` set ?ps. \<exists>e. r = Inl e"
    unfolding img .
  then have "\<exists>p\<in>set ?ps. \<exists>e. snd p = Inl e"
    by blast
  from promise_all_rejects [OF this] obtain t e
    where pa: "promise_all ?ps = Inl e" and mem: "(t, Inl e) \<in> set ?ps"
    by blast
  from mem have "Inl e \<in> snd ` set ?ps" by force
  then have "Inl e \<in> set ?rs" unfolding img .
  then obtain d where d: "d \<in> set ?docs" "snd (processDocument st d) = Inl e" by auto
  have res: "generatePacket_try st w formData sel
      = (map Store (concat (map fst (map (processDocument st) ?docs))), Inl e)"
    using ne pa by (simp add: generatePacket_try_def Let_def)
  from d res show "\<exists>d\<in>set (sortedDocs sel). \<exists>e. snd (processDocument st d) = Inl e
           \<and> snd (generatePacket_try st w formData sel) = Inl e"
    by auto
  from res show "posted (fst (generatePacket_try st w formData sel)) = []"
    by (simp add: posted_Store)
qed

lemma catch_outer_Error: "catch_outer w (Error m) = Error m"
  by (simp add: catch_outer_def)

lemma generatePacket_fst: "fst (generatePacket st w formData sel) = fst (generatePacket_try st w formData sel)"
  by (simp add: generatePacket_def split: prod.splits sum.splits)

lemma generatePacket_snd:
  "snd (generatePacket st w formData sel) =
     (case snd (generatePacket_try st w formData sel) of
        Inl e \<Rightarrow> Inl (catch_outer w e) | Inr pdf \<Rightarrow> Inr pdf)"
  by (simp add: generatePacket_def split: prod.splits sum.splits)

lemma generatePacket_posted:
  assumes "p \<in> set (posted (fst (generatePacket st w formData sel)))"
  shows "\<exists>ds cat.
      map Inr ds = map (\<lambda>d. snd (processDocument st d)) (sortedDocs sel)
    \<and> snd (getDocumentsByProductType st (productType formData)) = Inr cat
    \<and> p = build_payload formData ds (map (\<lambda>d. doc_name (document d)) (sortedDocs sel)) cat
    \<and> posted (fst (generatePacket st w formData sel)) = [p]
    \<and> snd (generatePacket st w formData sel) =
         (case post w (workerUrl w @ ''/generate-packet'') p of
            Inl e \<Rightarrow> Inl (catch_outer w e)
          | Inr r \<Rightarrow> (case read_response w r of
                        Inl e \<Rightarrow> Inl (catch_outer w e)
                      | Inr pdf \<Rightarrow> Inr pdf))"
proof -
  let ?ps = "zip (map (settles_at w) [0..<length (sortedDocs sel)])
                 (map (\<lambda>d. snd (processDocument st d)) (sortedDocs sel))"
  from assms have "p \<in> set (posted (fst (generatePacket_try st w formData sel)))"
    by (simp add: generatePacket_fst)
  from generatePacket_try_posted [OF this] obtain ds cat where
    pa: "promise_all ?ps = Inr ds"
    and cat: "snd (getDocumentsByProductType st (productType formData)) = Inr cat"
    and p: "p = build_payload formData ds (map (\<lambda>d. doc_name (document d)) (sortedDocs sel)) cat"
    and one: "posted (fst (generatePacket_try st w formData sel)) = [p]"
    and res: "snd (generatePacket_try st w formData sel) =
         (case post w (workerUrl w @ ''/generate-packet'') p of
            Inl e \<Rightarrow> Inl e
          | Inr r \<Rightarrow> read_response w r)"
    by blast
  have none: "first_rejection ?ps = None" and ds: "ds = fulfilled ?ps"
    using pa by (auto simp: promise_all_def split: option.splits)
  have "\<forall>q\<in>set ?ps. \<exists>v. snd q = Inr v"
  proof (rule ccontr)
    assume "\<not> (\<forall>q\<in>set ?ps. \<exists>v. snd q = Inr v)"
    then have "\<exists>q\<in>set ?ps. \<exists>e. snd q = Inl e"
      by (metis sum.exhaust)
    from first_rejection_some [OF this] none show False by simp
  qed
  from fulfilled_all [OF this] have "map Inr ds = map snd ?ps"
    by (simp add: ds)
  then have "map Inr ds = map (\<lambda>d. snd (processDocument st d)) (sortedDocs sel)"
    by (simp add: map_snd_zip)
  with cat p one res show ?thesis
    by (auto simp: generatePacket_fst generatePacket_snd split: sum.splits)
qed

lemma processDocument_Inr:
  "snd (processDocument st d) = Inr v \<Longrightarrow>
     pk_id v = sel_id d \<and> pk_name v = doc_name (document d) \<and> pk_type v = doc_type (document d)"
  by (cases "exportDocumentAsBase64 st (doc_id (document d))")
     (auto simp: processDocument_def split: sum.splits)

lemma entries_ids:
  "map Inr ds = map (\<lambda>d. snd (processDocument st d)) docs \<Longrightarrow>
     map pk_id ds = map sel_id docs"
proof (induction docs arbitrary: ds)
  case Nil
  then show ?case by simp
next
  case (Cons d docs)
  then obtain v vs where ds: "ds = v # vs" by (cases ds) auto
  with Cons.prems have "snd (processDocument st d) = Inr v"
    and "map Inr vs = map (\<lambda>d. snd (processDocument st d)) docs"
    by simp_all
  with Cons.IH [of vs] processDocument_Inr [of st d v] ds show ?case by simp
qed

text \<open>A request is sent whenever no retrieval throws and the catalog is read.\<close>

lemma generatePacket_posts:
  assumes "\<exists>d\<in>set sel. selected d"
    and "\<forall>d\<in>set sel. selected d \<longrightarrow>
           (\<exists>v. snd (exportDocumentAsBase64 st (doc_id (document d))) = Inr v)"
    and "snd (getDocumentsByProductType st (productType formData)) = Inr cat"
  shows "\<exists>p. posted (fst (generatePacket st w formData sel)) = [p]"
proof -
  let ?docs = "sortedDocs sel"
  let ?rs = "map snd (map (processDocument st) ?docs)"
  let ?ps = "zip (map (settles_at w) [0..<length (map (processDocument st) ?docs)]) ?rs"
  from assms(1) have ne: "length ?docs \<noteq> 0"
    using set_sortedDocs [of sel] by auto
  have "\<forall>d\<in>set ?docs. \<exists>v. snd (processDocument st d) = Inr v"
    using assms(2) processDocument_resolves by (auto simp: set_sortedDocs)
  then have "\<forall>r\<in>set ?rs. \<exists>v. r = Inr v" by auto
  moreover have "snd ` set ?ps = set ?rs"
    by (metis length_map map_snd_zip set_map length_upt diff_zero)
  ultimately have "\<forall>q\<in>set ?ps. \<exists>v. snd q = Inr v" by blast
  from promise_all_resolves [OF this] obtain ds where pa: "promise_all ?ps = Inr ds"
    by blast
  obtain evs2 where cat: "getDocumentsByProductType st (productType formData) = (evs2, Inr cat)"
    using assms(3) by (cases "getDocumentsByProductType st (productType formData)") simp
  show ?thesis
    using ne pa cat
    by (auto simp: generatePacket_fst generatePacket_try_def Let_def posted_append posted_Store
             split: sum.splits)
qed

text \<open>The runs on the concrete inputs.\<close>

lemma sel_of_fields:
  "selected (sel_of i s n) = s" "order (sel_of i s n) = n" "sel_id (sel_of i s n) = ''sel-'' @ i"
  "doc_id (document (sel_of i s n)) = i" "doc_name (document (sel_of i s n)) = ''Doc '' @ i"
  by (simp_all add: sel_of_def mapDatabaseToDocument_def row_of_def)

lemma processDocument_store_ok:
  "processDocument store_ok (sel_of i s n)
     = ([SelectById i, Fetch (''https://files/'' @ i)], Inr (entry_of i))"
  by (simp add: processDocument_def sel_of_fields export_store_ok entry_of_def)
     (simp add: sel_of_def mapDatabaseToDocument_def row_of_def)

lemma catalog_store_ok:
  "getDocumentsByProductType store_ok t = ([SelectByProductType t], Inr catalog_ok)"
  by (simp add: getDocumentsByProductType_def store_ok_def catalog_ok_def)

lemma sortedDocs_sel3: "sortedDocs sel3 = [sel_of ''b'' True 1, sel_of ''a'' True 2, sel_of ''c'' True 3]"
  by (simp add: sortedDocs_def js_sort_def sel3_def sel_of_fields)

lemma sortedDocs_sel_ties: "sortedDocs sel_ties = [sel_of ''a'' True 1, sel_of ''c'' True 1]"
  by (simp add: sortedDocs_def js_sort_def sel_ties_def sel_of_fields)

lemma upt_3: "[0..<3] = [0, 1, 2]" "[0..<2] = [0, 1]"
  by (simp_all add: upt_rec)

lemma post_worker_answering: "post (worker_answering r) url p = Inr r"
  by (simp add: worker_answering_def)

lemma posted_sel3:
  "posted (fst (generatePacket store_ok (worker_answering r) formData sel3))
     = [build_payload formData [entry_of ''b'', entry_of ''a'', entry_of ''c'']
          [''Doc b'', ''Doc a'', ''Doc c''] catalog_ok]"
  by (simp add: generatePacket_fst generatePacket_try_def sortedDocs_sel3 processDocument_store_ok
      promise_all_def catalog_store_ok Let_def posted_append sel_of_fields upt_3 post_worker_answering)

lemma posted_sel_ties:
  "posted (fst (generatePacket store_ok (worker_answering r) formData sel_ties))
     = [build_payload formData [entry_of ''a'', entry_of ''c'']
          [''Doc a'', ''Doc c''] catalog_ok]"
  by (simp add: generatePacket_fst generatePacket_try_def sortedDocs_sel_ties processDocument_store_ok
      promise_all_def catalog_store_ok Let_def posted_append sel_of_fields upt_3 post_worker_answering)

lemma string_of_nat_500: "string_of_nat 500 = ''500''"
  by code_simp

lemma string_of_nat_502: "string_of_nat 502 = ''502''"
  by code_simp

subsection \<open>Base64\<close>

lemma b64_index_char: "\<forall>i\<in>set [0..<64]. b64_index (b64_char i) = Some i"
  by code_simp

lemma b64_char_not_pad: "\<forall>i\<in>set [0..<64]. b64_char i \<noteq> CHR ''='' \<and> b64_char i \<noteq> CHR '',''"
  by code_simp

lemma b64_index_b64_char: "i < 64 \<Longrightarrow> b64_index (b64_char i) = Some i"
  using b64_index_char by simp

lemma b64_char_neq: "b64_char i \<noteq> CHR ''=''" "b64_char i \<noteq> CHR '',''"
proof -
  have "i mod 64 < 64" by simp
  then have "b64_char (i mod 64) \<noteq> CHR ''='' \<and> b64_char (i mod 64) \<noteq> CHR '',''"
    using b64_char_not_pad by simp
  then show "b64_char i \<noteq> CHR ''=''" "b64_char i \<noteq> CHR '',''"
    by (simp_all add: b64_char_def)
qed

lemma sextets_recompose:
  fixes n :: nat
  shows "n div 262144 * 262144 + n div 4096 mod 64 * 4096 + n div 64 mod 64 * 64 + n mod 64 = n"
proof -
  define q1 where "q1 = n div 64"
  define q2 where "q2 = q1 div 64"
  define q3 where "q3 = q2 div 64"
  have e2: "n div 4096 = q2"
    unfolding q2_def q1_def by (simp add: div_mult2_eq)
  have e3: "n div 262144 = q3"
    unfolding q3_def q2_def q1_def by (simp add: div_mult2_eq)
  have n: "n = q1 * 64 + n mod 64"
    unfolding q1_def by simp
  have q1: "q1 = q2 * 64 + q1 mod 64"
    unfolding q2_def by simp
  have q2: "q2 = q3 * 64 + q2 mod 64"
    unfolding q3_def by simp
  have "q3 * 262144 + q2 mod 64 * 4096 + q1 mod 64 * 64 + n mod 64 = n"
    using n q1 q2 by linarith
  then show ?thesis
    unfolding e2 e3 q1_def [symmetric] .
qed

lemma group_bytes:
  fixes x y z :: nat
  assumes "x < 256" "y < 256" "z < 256"
  shows "(x * 65536 + y * 256 + z) div 65536 = x"
    and "(x * 65536 + y * 256 + z) div 256 mod 256 = y"
    and "(x * 65536 + y * 256 + z) mod 256 = z"
    and "(x * 65536 + y * 256 + z) div 262144 < 64"
proof -
  have r: "y * 256 + z < 65536" using assms by linarith
  have "(x * 65536 + y * 256 + z) div 65536 = (y * 256 + z + x * 65536) div 65536"
    by (simp add: add.commute add.left_commute)
  also have "\<dots> = (y * 256 + z) div 65536 + x"
    by simp
  also have "\<dots> = x" using r by simp
  finally show "(x * 65536 + y * 256 + z) div 65536 = x" .
  have h: "x * 65536 + y * 256 + z = z + (x * 256 + y) * 256"
    by (simp add: algebra_simps)
  then have d: "(x * 65536 + y * 256 + z) div 256 = x * 256 + y"
    using assms(3) by simp
  show "(x * 65536 + y * 256 + z) div 256 mod 256 = y"
    unfolding d using assms(2) by simp
  have "(z + (x * 256 + y) * 256) mod 256 = z mod 256"
    by (rule mod_mult_self1)
  then show "(x * 65536 + y * 256 + z) mod 256 = z"
    unfolding h using assms(3) by (simp only: mod_less)
  have "x * 65536 + y * 256 + z < 64 * 262144"
    using assms by linarith
  then show "(x * 65536 + y * 256 + z) div 262144 < 64"
    by (simp add: less_mult_imp_div_less)
qed

lemma unat_byte_less: "unat (a :: byte) < 256"
  using unsigned_less [of a, where ?'a = nat] by simp

lemma decode_group3:
  fixes a b c :: byte
  assumes "base64_decode cs = Some rest"
  shows "base64_decode
     (let n = unat a * 65536 + unat b * 256 + unat c
      in [b64_char (n div 262144), b64_char (n div 4096 mod 64), b64_char (n div 64 mod 64),
          b64_char (n mod 64)] @ cs) = Some (a # b # c # rest)"
proof -
  define n where "n = unat a * 65536 + unat b * 256 + unat c"
  have i1: "n div 262144 < 64"
    unfolding n_def using group_bytes(4) [OF unat_byte_less unat_byte_less unat_byte_less] .
  have idx: "b64_index (b64_char (n div 262144)) = Some (n div 262144)"
    "b64_index (b64_char (n div 4096 mod 64)) = Some (n div 4096 mod 64)"
    "b64_index (b64_char (n div 64 mod 64)) = Some (n div 64 mod 64)"
    "b64_index (b64_char (n mod 64)) = Some (n mod 64)"
    using i1 by (simp_all add: b64_index_b64_char)
  have bts: "of_nat (n div 65536) = a" "of_nat (n div 256 mod 256) = b" "of_nat (n mod 256) = c"
    unfolding n_def
    using group_bytes(1,2,3) [OF unat_byte_less unat_byte_less unat_byte_less, of a b c]
    by simp_all
  show ?thesis
    unfolding n_def [symmetric] Let_def
    using idx bts assms sextets_recompose [of n] b64_char_neq
    by (simp add: Let_def)
qed

lemma decode_group1:
  fixes a :: byte
  shows "base64_decode (base64_encode [a]) = Some [a]"
proof -
  define n where "n = unat a * 65536"
  have n': "n = unat a * 65536 + 0 * 256 + 0" by (simp add: n_def)
  have i1: "n div 262144 < 64"
    unfolding n' by (rule group_bytes(4)) (simp_all add: unat_byte_less)
  have idx: "b64_index (b64_char (n div 262144)) = Some (n div 262144)"
    "b64_index (b64_char (n div 4096 mod 64)) = Some (n div 4096 mod 64)"
    using i1 by (simp_all add: b64_index_b64_char)
  have "n = unat a * 1024 * 64" by (simp add: n_def)
  then have d64: "n div 64 = unat a * 16 * 64" and m0: "n mod 64 = 0" by simp_all
  have m64: "n div 64 mod 64 = 0" "n mod 64 = 0"
    unfolding d64 using m0 by simp_all
  have "n div 262144 * 262144 + n div 4096 mod 64 * 4096 = n"
    using sextets_recompose [of n] m64 by simp
  moreover have "n div 65536 = unat a" by (simp add: n_def)
  ultimately have bts: "of_nat ((n div 262144 * 262144 + n div 4096 mod 64 * 4096) div 65536) = a"
    by simp
  show ?thesis
    using idx bts by (simp add: n_def [symmetric] Let_def)
qed

lemma decode_group2:
  fixes a b :: byte
  shows "base64_decode (base64_encode [a, b]) = Some [a, b]"
proof -
  define n where "n = unat a * 65536 + unat b * 256"
  have n': "n = unat a * 65536 + unat b * 256 + 0" by (simp add: n_def)
  have i1: "n div 262144 < 64"
    unfolding n' by (rule group_bytes(4)) (simp_all add: unat_byte_less)
  have idx: "b64_index (b64_char (n div 262144)) = Some (n div 262144)"
    "b64_index (b64_char (n div 4096 mod 64)) = Some (n div 4096 mod 64)"
    "b64_index (b64_char (n div 64 mod 64)) = Some (n div 64 mod 64)"
    using i1 by (simp_all add: b64_index_b64_char)
  have "n = (unat a * 1024 + unat b * 4) * 64" by (simp add: n_def)
  then have m64: "n mod 64 = 0" by simp
  have rec: "n div 262144 * 262144 + n div 4096 mod 64 * 4096 + n div 64 mod 64 * 64 = n"
    using sextets_recompose [of n] m64 by simp
  have "n div 65536 = unat a" "n div 256 mod 256 = unat b"
    unfolding n' using group_bytes(1,2) [of "unat a" "unat b" 0] by (simp_all add: unat_byte_less)
  then have bts: "of_nat (n div 65536) = a" "of_nat (n div 256 mod 256) = b"
    by simp_all
  show ?thesis
    using idx bts rec b64_char_neq by (simp add: n_def [symmetric] Let_def)
qed

lemma base64_roundtrip: "base64_decode (base64_encode bs) = Some bs"
proof (induction bs rule: base64_encode.induct)
  case 1
  show ?case by simp
next
  case (2 a)
  show ?case by (rule decode_group1)
next
  case (3 a b)
  show ?case by (rule decode_group2)
next
  case (4 a b c rest)
  from 4 [OF refl] have "base64_decode (base64_encode rest) = Some rest" .
  from decode_group3 [OF this] show ?case by simp
qed

lemma comma_notin_base64: "CHR '','' \<notin> set (base64_encode bs)"
  by (induction bs rule: base64_encode.induct) (simp_all add: Let_def b64_char_neq [symmetric])

lemma split_on_none: "sep \<notin> set s \<Longrightarrow> split_on sep s = [s]"
  by (induction s) auto

lemma split_on_first:
  "sep \<notin> set s \<Longrightarrow> split_on sep (s @ sep # t) = s # split_on sep t"
  by (induction s) auto

lemma split_data_url:
  assumes "CHR '','' \<notin> set (blob_type b)"
  shows "js_index (split_on CHR '','' (data_url b)) 1 = Some (base64_encode (blob_bytes b))"
proof -
  have "data_url b = (''data:'' @ blob_type b @ '';base64'') @ CHR '','' # base64_encode (blob_bytes b)"
    by (simp add: data_url_def)
  moreover have "CHR '','' \<notin> set (''data:'' @ blob_type b @ '';base64'')"
    using assms by simp
  ultimately have "split_on CHR '','' (data_url b)
      = (''data:'' @ blob_type b @ '';base64'') # split_on CHR '','' (base64_encode (blob_bytes b))"
    using split_on_first by metis
  then show ?thesis
    by (simp add: split_on_none comma_notin_base64 js_index_def)
qed

lemma getDocument_store_ok:
  "getDocument store_ok i
     = ([SelectById i],
        Inr (Some (mapDatabaseToDocument (row_of i (''Doc '' @ i) (Some (''https://files/'' @ i))))))"
  by (simp add: getDocument_def store_ok_def)

subsection \<open>File signatures\<close>

lemma html_signature: "\<not> startsWith (fromCharCode [60, 104, 116, 109, 108]) ''%PDF''"
  by code_simp

lemma pdf_signature: "startsWith (fromCharCode [37, 80, 68, 70, 45]) ''%PDF''"
  by code_simp

subsection \<open>Packet assembler\<close>

text \<open>
  C1 (as amended). For \<open>generatePacket\<close>, retrieving a selected document is the call
  \<open>exportDocumentAsBase64(doc.document.id)\<close>. Whenever that call throws for a selected
  document, \<open>generatePacket\<close> fails with the error \<open>Failed to process document: <name>\<close>
  naming a selected document whose retrieval threw, no request is sent to the worker, and
  nothing is returned; when the retrievals of all the other selected documents succeed,
  the document named is that one.
\<close>

theorem generatePacket_retrieval_throws:
  assumes "d \<in> set sel" and "selected d"
    and "snd (exportDocumentAsBase64 st (doc_id (document d))) = Inl e"
  shows "(\<exists>d'\<in>set sel. selected d'
            \<and> (\<exists>e'. snd (exportDocumentAsBase64 st (doc_id (document d'))) = Inl e')
            \<and> snd (generatePacket st w formData sel)
                = Inl (Error (''Failed to process document: '' @ doc_name (document d'))))
       \<and> posted (fst (generatePacket st w formData sel)) = []
       \<and> ((\<forall>d'\<in>set sel. selected d' \<and> d' \<noteq> d \<longrightarrow>
              (\<exists>v. snd (exportDocumentAsBase64 st (doc_id (document d'))) = Inr v))
            \<longrightarrow> snd (generatePacket st w formData sel)
                = Inl (Error (''Failed to process document: '' @ doc_name (document d))))"
proof -
  from assms have "d \<in> set (sortedDocs sel)" by (simp add: set_sortedDocs)
  moreover from assms(3) have "\<exists>e. snd (processDocument st d) = Inl e"
    by (auto dest: processDocument_throws)
  ultimately have rej: "\<exists>d\<in>set (sortedDocs sel). \<exists>e. snd (processDocument st d) = Inl e"
    by blast
  from generatePacket_try_rejected(1) [OF rej, of w formData] obtain d' e'
    where d': "d' \<in> set (sortedDocs sel)" "snd (processDocument st d') = Inl e'"
      "snd (generatePacket_try st w formData sel) = Inl e'"
    by blast
  from processDocument_Inl [OF d'(2)] obtain e'' where
    thr: "snd (exportDocumentAsBase64 st (doc_id (document d'))) = Inl e''"
    and e': "e' = Error (''Failed to process document: '' @ doc_name (document d'))"
    by blast
  have res: "snd (generatePacket st w formData sel)
      = Inl (Error (''Failed to process document: '' @ doc_name (document d')))"
    using d'(3) e' by (simp add: generatePacket_snd catch_outer_Error)
  from d'(1) have sel': "d' \<in> set sel" "selected d'" by (simp_all add: set_sortedDocs)
  have 1: "\<exists>d'\<in>set sel. selected d'
            \<and> (\<exists>e'. snd (exportDocumentAsBase64 st (doc_id (document d'))) = Inl e')
            \<and> snd (generatePacket st w formData sel)
                = Inl (Error (''Failed to process document: '' @ doc_name (document d')))"
    using sel' thr res by blast
  have 2: "posted (fst (generatePacket st w formData sel)) = []"
    using generatePacket_try_rejected(2) [OF rej, of w formData] by (simp add: generatePacket_fst)
  have 3: "(\<forall>d'\<in>set sel. selected d' \<and> d' \<noteq> d \<longrightarrow>
              (\<exists>v. snd (exportDocumentAsBase64 st (doc_id (document d'))) = Inr v))
            \<longrightarrow> snd (generatePacket st w formData sel)
                = Inl (Error (''Failed to process document: '' @ doc_name (document d)))"
  proof
    assume only: "\<forall>d'\<in>set sel. selected d' \<and> d' \<noteq> d \<longrightarrow>
              (\<exists>v. snd (exportDocumentAsBase64 st (doc_id (document d'))) = Inr v)"
    have "d' = d"
    proof (rule ccontr)
      assume "d' \<noteq> d"
      with only sel' obtain v where "snd (exportDocumentAsBase64 st (doc_id (document d'))) = Inr v"
        by blast
      with thr show False by simp
    qed
    with res show "snd (generatePacket st w formData sel)
                = Inl (Error (''Failed to process document: '' @ doc_name (document d)))"
      by simp
  qed
  from 1 2 3 show ?thesis by blast
qed

text \<open>A run in which the record lookup of the second of three selected documents fails.\<close>

lemma export_lookup_fails_b:
  "snd (exportDocumentAsBase64 store_lookup_fails ''b'') = Inl (Error ''connection lost'')"
  by (simp add: exportDocumentAsBase64_def getDocument_def store_lookup_fails_def)

lemma export_lookup_fails_other:
  "i \<noteq> ''b'' \<Longrightarrow> snd (exportDocumentAsBase64 store_lookup_fails i) = Inr (Str ''JVBERg=='')"
  by (simp add: exportDocumentAsBase64_def getDocument_def store_lookup_fails_def store_ok_def
      row_of_def mapDatabaseToDocument_def
      pdf_blob_def data_url_def js_index_def b64_char_def b64_alphabet_def Let_def)

theorem generatePacket_retrieval_throws_witness:
  "snd (generatePacket store_lookup_fails (worker_answering pdf_response) form_plain sel3)
     = Inl (Error ''Failed to process document: Doc b'')
   \<and> posted (fst (generatePacket store_lookup_fails (worker_answering pdf_response) form_plain sel3)) = []"
proof -
  have 1: "sel_of ''b'' True 1 \<in> set sel3" by (simp add: sel3_def)
  have 2: "selected (sel_of ''b'' True 1)" by (simp add: sel_of_def)
  have 3: "snd (exportDocumentAsBase64 store_lookup_fails (doc_id (document (sel_of ''b'' True 1))))
            = Inl (Error ''connection lost'')"
    by (simp add: sel_of_def mapDatabaseToDocument_def row_of_def export_lookup_fails_b)
  have 4: "\<forall>d'\<in>set sel3. selected d' \<and> d' \<noteq> sel_of ''b'' True 1 \<longrightarrow>
     (\<exists>v. snd (exportDocumentAsBase64 store_lookup_fails (doc_id (document d'))) = Inr v)"
    by (simp add: sel3_def sel_of_def mapDatabaseToDocument_def row_of_def export_lookup_fails_other)
  have 5: "doc_name (document (sel_of ''b'' True 1)) = ''Doc b''"
    by (simp add: sel_of_def mapDatabaseToDocument_def row_of_def)
  from generatePacket_retrieval_throws [OF 1 2 3, of "worker_answering pdf_response" form_plain] 4 5
  show ?thesis by simp
qed

text \<open>
  One of three selected documents whose content cannot be fetched: \<open>fetch\<close> throws, the
  encoder returns \<open>null\<close>, and \<open>generatePacket\<close> sends the request, with that document
  lacking \<open>fileData\<close>, and returns the worker's PDF.
\<close>

lemma processDocument_fetch_fails_b:
  "processDocument store_fetch_fails_b (sel_of i s n)
     = ([SelectById i, Fetch (''https://files/'' @ i)],
        Inr (if i = ''b'' then (entry_of i) \<lparr> fileData := None \<rparr> else entry_of i))"
  by (simp add: processDocument_def exportDocumentAsBase64_def getDocument_def
      store_fetch_fails_b_def store_ok_def sel_of_def row_of_def mapDatabaseToDocument_def
      pdf_blob_def data_url_def js_index_def b64_char_def b64_alphabet_def Let_def entry_of_def)

theorem generatePacket_fetch_fails_counterexample:
  "fetch store_fetch_fails_b ''https://files/b'' = Inl (TypeError ''Failed to fetch'')
   \<and> snd (exportDocumentAsBase64 store_fetch_fails_b ''b'') = Inr Null
   \<and> posted (fst (generatePacket store_fetch_fails_b (worker_answering pdf_response) form_plain sel3))
       = [build_payload form_plain
            [(entry_of ''b'') \<lparr> fileData := None \<rparr>, entry_of ''a'', entry_of ''c'']
            [''Doc b'', ''Doc a'', ''Doc c''] catalog_ok]
   \<and> snd (generatePacket store_fetch_fails_b (worker_answering pdf_response) form_plain sel3)
       = Inr [37, 80, 68, 70, 45]"
proof -
  have 1: "fetch store_fetch_fails_b ''https://files/b'' = Inl (TypeError ''Failed to fetch'')"
    by (simp add: store_fetch_fails_b_def)
  have 2: "snd (exportDocumentAsBase64 store_fetch_fails_b ''b'') = Inr Null"
    by (simp add: exportDocumentAsBase64_def getDocument_def store_fetch_fails_b_def store_ok_def
        row_of_def mapDatabaseToDocument_def)
  have c: "getDocumentsByProductType store_fetch_fails_b t = ([SelectByProductType t], Inr catalog_ok)" for t
    by (simp add: getDocumentsByProductType_def store_fetch_fails_b_def store_ok_def catalog_ok_def)
  have t: "generatePacket_try store_fetch_fails_b (worker_answering pdf_response) form_plain sel3
     = (map Store [SelectById ''b'', Fetch ''https://files/b'', SelectById ''a'',
                   Fetch ''https://files/a'', SelectById ''c'', Fetch ''https://files/c'',
                   SelectByProductType (Some ''structural-floor'')]
        @ [Post ''https://worker/generate-packet''
             (build_payload form_plain
                [(entry_of ''b'') \<lparr> fileData := None \<rparr>, entry_of ''a'', entry_of ''c'']
                [''Doc b'', ''Doc a'', ''Doc c''] catalog_ok)],
        Inr [37, 80, 68, 70, 45])"
    by (simp add: generatePacket_try_def sortedDocs_sel3 processDocument_fetch_fails_b
      promise_all_def c Let_def sel_of_fields upt_3 post_worker_answering
      read_response_def ok_def pdf_response_def worker_answering_def form_plain_def)
  from 1 2 t show ?thesis
    by (simp add: generatePacket_def)
qed

text \<open>
  C2. When no entry of the selection has \<open>selected\<close> set (in particular when the selection
  is empty), \<open>generatePacket\<close> fails with \<open>No documents selected for packet generation\<close>
  and the call has no effect at all: no document is looked up or fetched, the catalog is not
  queried, and nothing is sent to the worker.
\<close>

theorem generatePacket_empty_selection:
  assumes "\<forall>d\<in>set sel. \<not> selected d"
  shows "generatePacket st w formData sel
           = ([], Inl (Error ''No documents selected for packet generation''))
       \<and> generatePacket st w formData []
           = ([], Inl (Error ''No documents selected for packet generation''))"
proof -
  have "sortedDocs sel = []"
    using assms by (simp add: sortedDocs_def js_sort_def filter_False)
  moreover have "sortedDocs [] = []"
    by (simp add: sortedDocs_def js_sort_def)
  ultimately show ?thesis
    by (simp add: generatePacket_def generatePacket_try_def catch_outer_def)
qed

theorem generatePacket_empty_selection_witness:
  "generatePacket store_ok (worker_answering pdf_response) form_plain
     [sel_of ''a'' False 1, sel_of ''b'' False 2]
   = ([], Inl (Error ''No documents selected for packet generation''))"
proof -
  have "\<forall>d\<in>set [sel_of ''a'' False 1, sel_of ''b'' False 2]. \<not> selected d"
    by (simp add: sel_of_def)
  from generatePacket_empty_selection [OF this] show ?thesis by blast
qed

text \<open>
  C3 (as amended). The documents of every request sent to the worker are the entries of the
  selection with \<open>selected\<close> set, each exactly once, in ascending (non-decreasing)
  \<open>order\<close>; entries with the same \<open>order\<close> keep the sequence they have in the selection;
  and the order is strictly ascending exactly when the selected entries have pairwise
  distinct \<open>order\<close> values.
\<close>

theorem generatePacket_request_order:
  assumes "p \<in> set (posted (fst (generatePacket st w formData sel)))"
  shows "map Inr (documents p) = map (\<lambda>d. snd (processDocument st d)) (sortedDocs sel)
       \<and> map pk_id (documents p) = map sel_id (sortedDocs sel)
       \<and> mset (sortedDocs sel) = mset (filter selected sel)
       \<and> sorted (map order (sortedDocs sel))
       \<and> (\<forall>k. filter (\<lambda>d. order d = k) (sortedDocs sel)
               = filter (\<lambda>d. order d = k) (filter selected sel))
       \<and> (sorted_wrt (<) (map order (sortedDocs sel))
            \<longleftrightarrow> distinct (map order (filter selected sel)))"
proof -
  from generatePacket_posted [OF assms] obtain ds cat where
    ds: "map Inr ds = map (\<lambda>d. snd (processDocument st d)) (sortedDocs sel)"
    and p: "p = build_payload formData ds (map (\<lambda>d. doc_name (document d)) (sortedDocs sel)) cat"
    by blast
  have docs: "documents p = ds" by (simp add: p build_payload_def)
  have 1: "map Inr (documents p) = map (\<lambda>d. snd (processDocument st d)) (sortedDocs sel)"
    using ds docs by simp
  have 2: "map pk_id (documents p) = map sel_id (sortedDocs sel)"
    using entries_ids [OF ds] docs by simp
  have 3: "mset (sortedDocs sel) = mset (filter selected sel)"
    by (simp add: sortedDocs_def mset_js_sort)
  have 4: "sorted (map order (sortedDocs sel))"
    unfolding sortedDocs_def by (rule sorted_js_sort)
  have 5: "\<forall>k. filter (\<lambda>d. order d = k) (sortedDocs sel)
               = filter (\<lambda>d. order d = k) (filter selected sel)"
    unfolding sortedDocs_def by (simp add: filter_js_sort)
  have 6: "sorted_wrt (<) (map order (sortedDocs sel))
            \<longleftrightarrow> distinct (map order (filter selected sel))"
    unfolding sortedDocs_def by (rule strict_js_sort)
  from 1 2 3 4 5 6 show ?thesis by blast
qed

theorem generatePacket_request_order_witness:
  "payload3 form_plain
     \<in> set (posted (fst (generatePacket store_ok (worker_answering pdf_response) form_plain sel3)))
   \<and> map pk_id (documents (payload3 form_plain)) = [''sel-b'', ''sel-a'', ''sel-c'']
   \<and> map order (sortedDocs sel3) = [1, 2, 3]
   \<and> sorted_wrt (<) (map order (sortedDocs sel3))"
proof -
  have p: "payload3 form_plain
     \<in> set (posted (fst (generatePacket store_ok (worker_answering pdf_response) form_plain sel3)))"
    by (simp add: posted_sel3 payload3_def)
  have d: "distinct (map order (filter selected sel3))"
    by (simp add: sel3_def sel_of_fields)
  from generatePacket_request_order [OF p] d p show ?thesis
    by (simp add: sortedDocs_sel3 sel_of_fields)
qed

text \<open>
  Two selected entries with the same \<open>order\<close>: both are sent, in the sequence of the
  selection, and the \<open>order\<close> values of the request's documents are not strictly ascending.
\<close>

theorem generatePacket_equal_orders_counterexample:
  "map documents
     (posted (fst (generatePacket store_ok (worker_answering pdf_response) form_plain sel_ties)))
     = [[entry_of ''a'', entry_of ''c'']]
   \<and> map order (sortedDocs sel_ties) = [1, 1]
   \<and> \<not> sorted_wrt (<) (map order (sortedDocs sel_ties))"
  by (simp add: posted_sel_ties sortedDocs_sel_ties sel_of_fields build_payload_def)

text \<open>
  C4. The project data of every request sent to the worker has both flag groups: \<open>status\<close>
  and \<open>submittalType\<close> are the caller's when the form data has them, and otherwise the
  group with every flag \<open>false\<close>; the other caller fields are passed through.
\<close>

theorem generatePacket_default_flags:
  assumes "p \<in> set (posted (fst (generatePacket st w formData sel)))"
  shows "pd_status (projectData p) =
           (case status formData of
              None \<Rightarrow> \<lparr> forReview = False, forApproval = False, forRecord = False,
                         forInformationOnly = False \<rparr>
            | Some s \<Rightarrow> s)
       \<and> pd_submittalType (projectData p) =
           (case submittalType formData of
              None \<Rightarrow> \<lparr> tds = False, threePartSpecs = False, testReportIccEsr5194 = False,
                         testReportIccEsl1645 = False, fireAssembly = False,
                         fireAssembly01 = False, fireAssembly02 = False,
                         fireAssembly03 = False, msds = False, leedGuide = False,
                         installationGuide = False, warranty = False, samples = False,
                         other = False \<rparr>
            | Some s \<Rightarrow> s)
       \<and> pd_productType (projectData p) = productType formData
       \<and> pd_callerFields (projectData p) = callerFields formData"
proof -
  from generatePacket_posted [OF assms] obtain ds cat where
    p: "p = build_payload formData ds (map (\<lambda>d. doc_name (document d)) (sortedDocs sel)) cat"
    by blast
  show ?thesis
    by (simp add: p build_payload_def default_status_def default_submittalType_def
             split: option.splits)
qed

theorem generatePacket_default_flags_witness:
  "payload3 form_partial
     \<in> set (posted (fst (generatePacket store_ok (worker_answering pdf_response) form_partial sel3)))
   \<and> pd_status (projectData (payload3 form_partial))
       = \<lparr> forReview = False, forApproval = False, forRecord = False,
           forInformationOnly = False \<rparr>
   \<and> pd_submittalType (projectData (payload3 form_partial)) = flags_tds"
proof -
  have p: "payload3 form_partial
     \<in> set (posted (fst (generatePacket store_ok (worker_answering pdf_response) form_partial sel3)))"
    by (simp add: posted_sel3 payload3_def)
  from generatePacket_default_flags [OF p] p show ?thesis
    by (simp add: form_partial_def form_plain_def)
qed

text \<open>
  The error branch for a response without a success status. When the \<open>try\<close> block
  yields a detail (the parsed body's \<open>message\<close>, or the body stringified), the error is
  \<open>Worker request failed: <status> <statusText> - <detail>\<close>. Otherwise the error depends
  on the second read of the body, \<open>response.text()\<close>: its text takes the detail's place
  when it resolves, and its rejection is what the call throws when it does not.
\<close>

lemma generatePacket_error_response:
  assumes "posted (fst (generatePacket st w formData sel)) = [p]"
    and "post w (workerUrl w @ ''/generate-packet'') p = Inr r"
    and "\<not> ok r"
  shows "snd (generatePacket st w formData sel) =
           (case json_detail w r of
              Some d \<Rightarrow> Inl (Error (''Worker request failed: '' @ string_of_nat (res_status r)
                                      @ '' '' @ res_statusText r @ '' - '' @ d))
            | None \<Rightarrow>
                (case res_text r of
                   Inl e \<Rightarrow> Inl (catch_outer w e)
                 | Inr t \<Rightarrow> Inl (Error (''Worker request failed: '' @ string_of_nat (res_status r)
                                          @ '' '' @ res_statusText r @ '' - '' @ t))))"
proof -
  from assms(1) have "p \<in> set (posted (fst (generatePacket st w formData sel)))" by simp
  from generatePacket_posted [OF this] assms(2)
  have "snd (generatePacket st w formData sel) =
          (case read_response w r of Inl e \<Rightarrow> Inl (catch_outer w e) | Inr pdf \<Rightarrow> Inr pdf)"
    by auto
  then show ?thesis
    using assms(3)
    by (simp add: read_response_def catch_outer_Error Let_def split: option.splits sum.splits)
qed

lemma generatePacket_boom:
  "snd (generatePacket store_ok (worker_answering boom_response) form_plain sel3)
     = Inl (Error ''Worker request failed: 500 Internal Server Error - boom'')"
  using generatePacket_error_response [of store_ok "worker_answering boom_response" form_plain sel3
        "payload3 form_plain" boom_response]
  by (simp add: posted_sel3 payload3_def post_worker_answering ok_def boom_response_def
      json_detail_def template_def string_of_nat_500)

text \<open>
  C5, at a response that is not JSON: status 502 with the plain-text body \<open>Bad Gateway\<close>.
  \<open>response.json()\<close> has consumed the body when it rejects, so the \<open>response.text()\<close> of
  the \<open>catch\<close> block rejects with a \<open>TypeError\<close> (Fetch standard, "consume body": a
  disturbed body is unusable). \<open>generatePacket\<close> throws that \<open>TypeError\<close>: the error
  carries neither the status code nor the text of the body.
\<close>

theorem generatePacket_text_after_json_rejects:
  "snd (generatePacket store_ok (worker_answering bad_gateway_response) form_plain sel3)
     = Inl (TypeError ''body stream already read'')"
  using generatePacket_error_response [of store_ok "worker_answering bad_gateway_response" form_plain sel3
        "payload3 form_plain" bad_gateway_response]
  by (simp add: posted_sel3 payload3_def post_worker_answering ok_def bad_gateway_response_def
      json_detail_def catch_outer_def startsWith_def)

text \<open>
  C6. When the worker answers the request with a success status (200 to 299) and the body
  is read, \<open>generatePacket\<close> fails with \<open>Received empty PDF from worker\<close> if the body has
  no bytes, and returns exactly the bytes of the body otherwise.
\<close>

theorem generatePacket_reads_pdf:
  assumes "posted (fst (generatePacket st w formData sel)) = [p]"
    and "post w (workerUrl w @ ''/generate-packet'') p = Inr r"
    and "ok r"
    and "res_arrayBuffer r = Inr body"
  shows "snd (generatePacket st w formData sel) =
           (if body = [] then Inl (Error ''Received empty PDF from worker'') else Inr body)"
proof -
  from assms(1) have "p \<in> set (posted (fst (generatePacket st w formData sel)))" by simp
  from generatePacket_posted [OF this] assms(2)
  have "snd (generatePacket st w formData sel) =
          (case read_response w r of Inl e \<Rightarrow> Inl (catch_outer w e) | Inr pdf \<Rightarrow> Inr pdf)"
    by auto
  then show ?thesis
    using assms(3,4) by (simp add: read_response_def catch_outer_Error)
qed

theorem generatePacket_reads_pdf_witness:
  "snd (generatePacket store_ok (worker_answering pdf_response) form_plain sel3)
     = Inr [37, 80, 68, 70, 45]
   \<and> snd (generatePacket store_ok (worker_answering empty_response) form_plain sel3)
     = Inl (Error ''Received empty PDF from worker'')"
proof -
  have 1: "snd (generatePacket store_ok (worker_answering pdf_response) form_plain sel3)
     = Inr [37, 80, 68, 70, 45]"
    using generatePacket_reads_pdf [of store_ok "worker_answering pdf_response" form_plain sel3
        "payload3 form_plain" pdf_response "[37, 80, 68, 70, 45]"]
    by (simp add: posted_sel3 payload3_def post_worker_answering ok_def pdf_response_def)
  have 2: "snd (generatePacket store_ok (worker_answering empty_response) form_plain sel3)
     = Inl (Error ''Received empty PDF from worker'')"
    using generatePacket_reads_pdf [of store_ok "worker_answering empty_response" form_plain sel3
        "payload3 form_plain" empty_response "[]"]
    by (simp add: posted_sel3 payload3_def post_worker_answering ok_def pdf_response_def
        empty_response_def)
  from 1 2 show ?thesis by simp
qed

subsection \<open>Document encoder\<close>

text \<open>
  C8 (as amended). \<open>exportDocumentAsBase64\<close> returns \<open>null\<close> exactly when the record does
  not exist, when it has no URL or an empty one, and when fetching the content of its URL
  throws (\<open>fetch\<close> or \<open>response.blob()\<close>); it throws exactly when the record lookup reports
  an error, which it rethrows, or the \<open>FileReader\<close> fails on the fetched content.
\<close>

theorem exportDocumentAsBase64_null:
  "(snd (exportDocumentAsBase64 st i) = Inr Null \<longleftrightarrow>
      snd (getDocument st i) = Inr None
      \<or> (\<exists>doc. snd (getDocument st i) = Inr (Some doc)
            \<and> (doc_url doc = None \<or> doc_url doc = Some []
                \<or> (\<exists>url. doc_url doc = Some url
                      \<and> ((\<exists>e. fetch st url = Inl e) \<or> (\<exists>e. fetch st url = Inr (Inl e)))))))
   \<and> (snd (exportDocumentAsBase64 st i) = Inl e \<longleftrightarrow>
      snd (getDocument st i) = Inl e
      \<or> (e = NonError
          \<and> (\<exists>doc url b. snd (getDocument st i) = Inr (Some doc) \<and> doc_url doc = Some url
                \<and> url \<noteq> [] \<and> fetch st url = Inr (Inr b) \<and> reader_error st b)))"
proof -
  obtain evs r where g: "getDocument st i = (evs, r)" by (cases "getDocument st i")
  show ?thesis
    by (auto simp: exportDocumentAsBase64_def g split: sum.splits option.splits)
qed

theorem exportDocumentAsBase64_null_witness:
  "snd (exportDocumentAsBase64 store_fetch_fails ''a'') = Inr Null
   \<and> snd (exportDocumentAsBase64 store_lookup_fails ''b'') = Inl (Error ''connection lost'')"
proof -
  have g: "snd (getDocument store_fetch_fails ''a'')
     = Inr (Some (mapDatabaseToDocument (row_of ''a'' ''Doc a'' (Some ''https://files/a''))))"
    by (simp add: getDocument_def store_fetch_fails_def store_ok_def)
  have f: "fetch store_fetch_fails ''https://files/a'' = Inl (TypeError ''Failed to fetch'')"
    by (simp add: store_fetch_fails_def)
  have u: "doc_url (mapDatabaseToDocument (row_of ''a'' ''Doc a'' (Some ''https://files/a'')))
     = Some ''https://files/a''"
    by (simp add: mapDatabaseToDocument_def row_of_def)
  have l: "snd (getDocument store_lookup_fails ''b'') = Inl (Error ''connection lost'')"
    by (simp add: getDocument_def store_lookup_fails_def)
  have 1: "snd (exportDocumentAsBase64 store_fetch_fails ''a'') = Inr Null"
    using exportDocumentAsBase64_null [of store_fetch_fails "''a''" NonError] g f u by auto
  have 2: "snd (exportDocumentAsBase64 store_lookup_fails ''b'') = Inl (Error ''connection lost'')"
    using exportDocumentAsBase64_null [of store_lookup_fails "''b''" "Error ''connection lost''"] l
    by blast
  from 1 2 show ?thesis by simp
qed

text \<open>
  A document that has a URL and whose content cannot be fetched: the result is \<open>null\<close>, not
  an exception.
\<close>

theorem exportDocumentAsBase64_fetch_fails_counterexample:
  "snd (getDocument store_fetch_fails ''a'')
     = Inr (Some (mapDatabaseToDocument (row_of ''a'' ''Doc a'' (Some ''https://files/a''))))
   \<and> fetch store_fetch_fails ''https://files/a'' = Inl (TypeError ''Failed to fetch'')
   \<and> exportDocumentAsBase64 store_fetch_fails ''a''
       = ([SelectById ''a'', Fetch ''https://files/a''], Inr Null)"
  by (simp add: exportDocumentAsBase64_def getDocument_def store_fetch_fails_def store_ok_def
      mapDatabaseToDocument_def row_of_def)

text \<open>
  The round trip where it holds. When the content of a document is fetched and read and
  its media type contains no comma, \<open>exportDocumentAsBase64\<close> returns the standard base64
  encoding of its bytes, and decoding that string gives the bytes back exactly, whatever
  the bytes are.
\<close>

lemma exportDocumentAsBase64_roundtrip:
  assumes "snd (getDocument st i) = Inr (Some doc)"
    and "doc_url doc = Some url" and "url \<noteq> []"
    and "fetch st url = Inr (Inr b)"
    and "\<not> reader_error st b"
    and "CHR '','' \<notin> set (blob_type b)"
  shows "snd (exportDocumentAsBase64 st i) = Inr (Str (base64_encode (blob_bytes b)))
       \<and> base64_decode (base64_encode (blob_bytes b)) = Some (blob_bytes b)"
proof -
  obtain evs where g: "getDocument st i = (evs, Inr (Some doc))"
    using assms(1) by (cases "getDocument st i") simp
  have "snd (exportDocumentAsBase64 st i) = Inr (Str (base64_encode (blob_bytes b)))"
    using assms(2-5) split_data_url [OF assms(6)]
    by (simp add: exportDocumentAsBase64_def g)
  then show ?thesis by (simp add: base64_roundtrip)
qed

lemma exportDocumentAsBase64_roundtrip_store_ok:
  "snd (exportDocumentAsBase64 store_ok ''a'') = Inr (Str ''JVBERg=='')
   \<and> base64_decode ''JVBERg=='' = Some [37, 80, 68, 70]"
proof -
  let ?doc = "mapDatabaseToDocument (row_of ''a'' ''Doc a'' (Some ''https://files/a''))"
  have e: "base64_encode [37, 80, 68, 70] = ''JVBERg==''"
    by (simp add: b64_char_def b64_alphabet_def)
  have 1: "snd (getDocument store_ok ''a'') = Inr (Some ?doc)"
    by (simp add: getDocument_store_ok)
  have 2: "doc_url ?doc = Some ''https://files/a''"
    by (simp add: mapDatabaseToDocument_def row_of_def)
  have 3: "''https://files/a'' \<noteq> []" by simp
  have 4: "fetch store_ok ''https://files/a'' = Inr (Inr pdf_blob)"
    by (simp add: store_ok_def)
  have 5: "\<not> reader_error store_ok pdf_blob"
    by (simp add: store_ok_def)
  have 6: "CHR '','' \<notin> set (blob_type pdf_blob)"
    by (simp add: pdf_blob_def)
  have b: "blob_bytes pdf_blob = [37, 80, 68, 70]"
    by (simp add: pdf_blob_def)
  from exportDocumentAsBase64_roundtrip [OF 1 2 3 4 5 6] show ?thesis
    unfolding b e .
qed


subsection \<open>Uploading\<close>

text \<open>
  C10. A file whose media type is not \<open>application/pdf\<close>, or whose size is above 52428800
  bytes or below 1024 bytes, or whose first bytes, once read, do not start with \<open>%PDF\<close>, is
  rejected by \<open>uploadDocument\<close> with the message of the first of these checks that fails,
  and the call has no effect: nothing is uploaded to the storage and nothing is inserted.
\<close>

theorem uploadDocument_rejects_invalid:
  assumes "file_type f \<noteq> ''application/pdf'' \<or> file_size f > 52428800 \<or> file_size f < 1024
           \<or> (\<exists>bs. file_head f = Inr bs \<and> \<not> startsWith (fromCharCode bs) ''%PDF'')"
  shows "uploadDocument u f ptype onProgress =
           ([], Inl (Error
              (if file_type f \<noteq> ''application/pdf'' then ''File must be a PDF document''
               else if file_size f > 52428800 then ''File size exceeds 50MB limit''
               else if file_size f < 1024 then ''File is too small to be a valid PDF''
               else ''File does not appear to be a valid PDF'')))
       \<and> writes (fst (uploadDocument u f ptype onProgress)) = []"
proof -
  have m: "MAX_SIZE = 52428800" by (simp add: MAX_SIZE_def)
  have "uploadDocument u f ptype onProgress =
           ([], Inl (Error
              (if file_type f \<noteq> ''application/pdf'' then ''File must be a PDF document''
               else if file_size f > 52428800 then ''File size exceeds 50MB limit''
               else if file_size f < 1024 then ''File is too small to be a valid PDF''
               else ''File does not appear to be a valid PDF'')))"
    using assms
    by (auto simp: uploadDocument_def validatePDF_def m Let_def split: sum.splits)
  then show ?thesis by simp
qed

theorem uploadDocument_rejects_invalid_witness:
  "uploadDocument uploader_ok html_file ''structural-floor'' True =
     ([], Inl (Error ''File does not appear to be a valid PDF''))
   \<and> writes (fst (uploadDocument uploader_ok html_file ''structural-floor'' True)) = []"
proof -
  have "file_type html_file \<noteq> ''application/pdf'' \<or> file_size html_file > 52428800
        \<or> file_size html_file < 1024
        \<or> (\<exists>bs. file_head html_file = Inr bs \<and> \<not> startsWith (fromCharCode bs) ''%PDF'')"
    using html_signature by (simp add: html_file_def)
  from uploadDocument_rejects_invalid [OF this, of uploader_ok "''structural-floor''" True]
  show ?thesis by (simp add: html_file_def)
qed

text \<open>A valid file, for contrast: it is uploaded and its row inserted.\<close>

lemma uploadDocument_valid_file:
  "writes (fst (uploadDocument uploader_ok pdf_file ''structural-floor'' True)) =
     [StorageUpload ''structural-floor/1700000000000-k3j5x8q2p.pdf'',
      Insert \<lparr> ins_name = ''Limited Warranty'', ins_description = ''warranty Document'',
               ins_filename = ''warranty.pdf'',
               ins_file_url = ''https://files/structural-floor/1700000000000-k3j5x8q2p.pdf'',
               ins_size = 2048, ins_type = ''structural-floor'',
               ins_product_type = ''structural-floor'', ins_required = False \<rparr>]"
  using pdf_signature
  by (simp add: uploadDocument_def validatePDF_def pdf_file_def html_file_def uploader_ok_def
      MAX_SIZE_def Let_def progress_def detectDocumentType_def extractDocumentName_def
      startsWith_def endsWith_def)

lemma endsWith_append_self: "endsWith (s @ suf) suf"
  by (simp add: endsWith_def)

lemma pdf_filename_endsWith: "endsWith (pdf_filename f) ''.pdf''"
  unfolding pdf_filename_def using endsWith_append_self [of f "''.pdf''"]
  by (simp del: append.simps)

lemma pdf_filename_idem: "pdf_filename (pdf_filename f) = pdf_filename f"
  using pdf_filename_endsWith [of f] by (simp add: pdf_filename_def [of "pdf_filename f"])

text \<open>
  C7. Whenever the host can materialise the bytes, \<open>downloadPDF\<close> triggers exactly one save,
  under the file name with \<open>.pdf\<close> appended exactly when the given name does not already end
  with it; the saved name always ends with \<open>.pdf\<close>; the renaming is idempotent; and
  \<open>report\<close> and \<open>report.pdf\<close> are both saved as \<open>report.pdf\<close>.
\<close>

theorem downloadPDF_saves_pdf_name:
  assumes "createObjectURL h pdfBytes = Inr url"
  shows "saved_names (fst (downloadPDF h pdfBytes filename)) = [pdf_filename filename]
    \<and> snd (downloadPDF h pdfBytes filename) = Inr ()
    \<and> pdf_filename filename = (if endsWith filename ''.pdf'' then filename else filename @ ''.pdf'')
    \<and> endsWith (pdf_filename filename) ''.pdf''
    \<and> pdf_filename (pdf_filename filename) = pdf_filename filename
    \<and> saved_names (fst (downloadPDF h pdfBytes ''report'')) = [''report.pdf'']
    \<and> saved_names (fst (downloadPDF h pdfBytes ''report.pdf'')) = [''report.pdf'']"
proof -
  have "saved_names (fst (downloadPDF h pdfBytes filename)) = [pdf_filename filename]"
    using assms by (simp add: downloadPDF_def Let_def)
  moreover have "snd (downloadPDF h pdfBytes filename) = Inr ()"
    using assms by (simp add: downloadPDF_def Let_def)
  moreover have "pdf_filename filename = (if endsWith filename ''.pdf'' then filename else filename @ ''.pdf'')"
    by (simp add: pdf_filename_def)
  moreover have "endsWith (pdf_filename filename) ''.pdf''"
    by (rule pdf_filename_endsWith)
  moreover have "pdf_filename (pdf_filename filename) = pdf_filename filename"
    by (rule pdf_filename_idem)
  moreover have "saved_names (fst (downloadPDF h pdfBytes ''report'')) = [''report.pdf'']"
    using assms by (simp add: downloadPDF_def Let_def pdf_filename_def endsWith_def)
  moreover have "saved_names (fst (downloadPDF h pdfBytes ''report.pdf'')) = [''report.pdf'']"
    using assms by (simp add: downloadPDF_def Let_def pdf_filename_def endsWith_def)
  ultimately show ?thesis by blast
qed

theorem downloadPDF_saves_pdf_name_witness:
  "createObjectURL host_ok [37, 80, 68, 70] = Inr ''blob:1''
   \<and> saved_names (fst (downloadPDF host_ok [37, 80, 68, 70] ''packet.v2'')) = [''packet.v2.pdf'']
   \<and> snd (downloadPDF host_ok [37, 80, 68, 70] ''packet.v2'') = Inr ()"
proof -
  have h: "createObjectURL host_ok [37, 80, 68, 70] = Inr ''blob:1''"
    by (simp add: host_ok_def)
  have "pdf_filename ''packet.v2'' = ''packet.v2.pdf''"
    by (simp add: pdf_filename_def endsWith_def)
  with h downloadPDF_saves_pdf_name [OF h, of "''packet.v2''"] show ?thesis
    by simp
qed

end
